theory Spec2Isabelle
  imports Complex_Main
begin

section \<open>The 2D cage manipulator of \<^verbatim>\<open>cage2d_manipulator.c\<close>\<close>

text \<open>
  A shallow embedding of the hit test, the drag session (invoke, modal, exit) and the pivot
  table of the rectangular cage manipulator.

  Conventions of the embedding:
  \<^item> a C \<^verbatim>\<open>float\<close> is a \<^typ>\<open>real\<close>: the arithmetic is exact, so rounding, infinities and
    NaN are outside the model. Copies and comparisons of components are what they are in C;
  \<^item> \<^verbatim>\<open>float[2]\<close> and \<^verbatim>\<open>float[4][4]\<close> are lists (of lists), read with \<open>!\<close> and written with
    list update; the C arrays have fixed sizes and every index of the source is a constant
    or the counter of the two-step loop, so no access is out of range;
  \<^item> a division is HOL's, which is 0 where the divisor is 0; C gives an infinity or a NaN
    there, so for a zero dimension or a snapshot with a zero basis vector the model and
    the C code part ways (the spec takes both dimensions to be positive);
  \<^item> \<^verbatim>\<open>BLI_assert(0)\<close> and the dereference of a null \<^verbatim>\<open>interaction_data\<close> are error values;
  \<^item> the host (context, bound property, redraw requests) is an explicit state.
\<close>

subsection \<open>Parts and transform flags\<close>

text \<open>
  Modelled from the spec: the header \<^verbatim>\<open>ED_manipulator_library.h\<close> with the enumerations
  \<^verbatim>\<open>ED_MANIPULATOR_CAGE2D_PART_*\<close> and \<^verbatim>\<open>ED_MANIPULATOR_CAGE2D_XFORM_FLAG_*\<close> is missing.
  The spec lists the parts (TranslateArea, the four edge and four corner scale parts,
  Rotate) and the flags (Translate, Rotate, Scale, ScaleUniform). The value \<^verbatim>\<open>-1\<close>, which
  the source uses for "no part", is \<open>None\<close> of \<open>cage2d_part option\<close>; an \<^verbatim>\<open>int\<close> of flag
  bits is a set of flags, and \<^verbatim>\<open>transform_flag & F\<close> is membership.
\<close>

datatype cage2d_part =
    PART_TRANSLATE
  | PART_SCALE_MIN_X
  | PART_SCALE_MAX_X
  | PART_SCALE_MIN_Y
  | PART_SCALE_MAX_Y
  | PART_SCALE_MIN_X_MIN_Y
  | PART_SCALE_MIN_X_MAX_Y
  | PART_SCALE_MAX_X_MIN_Y
  | PART_SCALE_MAX_X_MAX_Y
  | PART_ROTATE

datatype xform_flag =
    XFORM_FLAG_TRANSLATE
  | XFORM_FLAG_ROTATE
  | XFORM_FLAG_SCALE
  | XFORM_FLAG_SCALE_UNIFORM

datatype error = AssertFailed | NullPointer

subsection \<open>The pivot table\<close>

text \<open>
  \<^verbatim>\<open>manipulator_rect_pivot_from_scale_part\<close> (lines 68-84). The result is the pair of the
  outputs \<^verbatim>\<open>r_pt\<close> and \<^verbatim>\<open>r_constrain_axis\<close>; the locals \<^verbatim>\<open>x\<close> and \<^verbatim>\<open>y\<close> start as
  \<^verbatim>\<open>true\<close> and a case clears the ones it names. The \<^verbatim>\<open>default\<close> case is \<^verbatim>\<open>BLI_assert(0)\<close>.
\<close>

fun manipulator_rect_pivot_from_scale_part ::
  "cage2d_part option \<Rightarrow> error + (real list \<times> bool list)" where
  "manipulator_rect_pivot_from_scale_part (Some PART_SCALE_MIN_X) = Inr ([0.5, 0.0], [False, True])"
| "manipulator_rect_pivot_from_scale_part (Some PART_SCALE_MAX_X) = Inr ([-0.5, 0.0], [False, True])"
| "manipulator_rect_pivot_from_scale_part (Some PART_SCALE_MIN_Y) = Inr ([0.0, 0.5], [True, False])"
| "manipulator_rect_pivot_from_scale_part (Some PART_SCALE_MAX_Y) = Inr ([0.0, -0.5], [True, False])"
| "manipulator_rect_pivot_from_scale_part (Some PART_SCALE_MIN_X_MIN_Y) = Inr ([0.5, 0.5], [False, False])"
| "manipulator_rect_pivot_from_scale_part (Some PART_SCALE_MIN_X_MAX_Y) = Inr ([0.5, -0.5], [False, False])"
| "manipulator_rect_pivot_from_scale_part (Some PART_SCALE_MAX_X_MIN_Y) = Inr ([-0.5, 0.5], [False, False])"
| "manipulator_rect_pivot_from_scale_part (Some PART_SCALE_MAX_X_MAX_Y) = Inr ([-0.5, -0.5], [False, False])"
| "manipulator_rect_pivot_from_scale_part _ = Inl AssertFailed"

text \<open>
  The spec's words for the same table, to compare with: where a scale handle sits in the
  normalised cage \<open>[-0.5, 0.5]\<^sup>2\<close> (Min is the \<open>-0.5\<close> side, Max the \<open>+0.5\<close> side, an
  edge handle is centred on its edge), which parts are corners and which are edges, and
  the axis an edge runs along.
\<close>

fun handle_position :: "cage2d_part \<Rightarrow> real list" where
  "handle_position PART_SCALE_MIN_X = [-0.5, 0]"
| "handle_position PART_SCALE_MAX_X = [0.5, 0]"
| "handle_position PART_SCALE_MIN_Y = [0, -0.5]"
| "handle_position PART_SCALE_MAX_Y = [0, 0.5]"
| "handle_position PART_SCALE_MIN_X_MIN_Y = [-0.5, -0.5]"
| "handle_position PART_SCALE_MIN_X_MAX_Y = [-0.5, 0.5]"
| "handle_position PART_SCALE_MAX_X_MIN_Y = [0.5, -0.5]"
| "handle_position PART_SCALE_MAX_X_MAX_Y = [0.5, 0.5]"
| "handle_position _ = [0, 0]"

definition scale_edge_parts :: "cage2d_part list" where
  "scale_edge_parts =
     [PART_SCALE_MIN_X, PART_SCALE_MAX_X, PART_SCALE_MIN_Y, PART_SCALE_MAX_Y]"

definition scale_corner_parts :: "cage2d_part list" where
  "scale_corner_parts =
     [PART_SCALE_MIN_X_MIN_Y, PART_SCALE_MIN_X_MAX_Y,
      PART_SCALE_MAX_X_MIN_Y, PART_SCALE_MAX_X_MAX_Y]"

definition scale_parts :: "cage2d_part list" where
  "scale_parts = scale_edge_parts @ scale_corner_parts"

text \<open>The axis (0 for x, 1 for y) along which the edge of an edge handle runs.\<close>

fun edge_axis :: "cage2d_part \<Rightarrow> nat" where
  "edge_axis PART_SCALE_MIN_X = 1"
| "edge_axis PART_SCALE_MAX_X = 1"
| "edge_axis PART_SCALE_MIN_Y = 0"
| "edge_axis PART_SCALE_MAX_Y = 0"
| "edge_axis _ = 2"

text \<open>What the spec asks of the table's entry for one part.\<close>

definition pivot_entry_ok :: "cage2d_part \<Rightarrow> bool" where
  "pivot_entry_ok part =
     (case manipulator_rect_pivot_from_scale_part (Some part) of
        Inl e \<Rightarrow> False
      | Inr (pt, constrain_axis) \<Rightarrow>
          length pt = 2 \<and> length constrain_axis = 2 \<and>
          (pt ! 0 = -0.5 \<or> pt ! 0 = 0 \<or> pt ! 0 = 0.5) \<and>
          (pt ! 1 = -0.5 \<or> pt ! 1 = 0 \<or> pt ! 1 = 0.5) \<and>
          pt = map uminus (handle_position part) \<and>
          (if part \<in> set scale_corner_parts
           then constrain_axis = [False, False]
           else constrain_axis = [False, False][edge_axis part := True]))"

subsection \<open>Vectors, matrices and rectangles\<close>

text \<open>
  Modelled from the spec: \<^verbatim>\<open>zero_v2\<close> of the missing \<^verbatim>\<open>BLI_math\<close> library; the spec's
  "local origin".
\<close>

definition zero_v2 :: "real list" where
  "zero_v2 = [0, 0]"

text \<open>
  Modelled from the spec: \<^verbatim>\<open>sub_v2_v2v2\<close> of the missing \<^verbatim>\<open>BLI_math\<close> library; the spec's
  \<open>originPointerLocal - pivot\<close>, component by component.
\<close>

definition sub_v2_v2v2 :: "real list \<Rightarrow> real list \<Rightarrow> real list" where
  "sub_v2_v2v2 a b = [a ! 0 - b ! 0, a ! 1 - b ! 1]"

text \<open>
  Modelled from the spec: \<^verbatim>\<open>len_v3\<close> of the missing \<^verbatim>\<open>BLI_math\<close> library; the spec's
  length of a basis vector, the Euclidean norm of the first three components of a row.
\<close>

definition len_v3 :: "real list \<Rightarrow> real" where
  "len_v3 v = sqrt (v ! 0 * v ! 0 + v ! 1 * v ! 1 + v ! 2 * v ! 2)"

text \<open>
  Modelled from the spec: \<^verbatim>\<open>mul_v3_fl\<close> of the missing \<^verbatim>\<open>BLI_math\<close> library, which scales
  the first three components of a row in place (the spec's "build a pure-scale matrix").
\<close>

definition mul_v3_fl :: "real list \<Rightarrow> real \<Rightarrow> real list" where
  "mul_v3_fl r f = r[0 := r ! 0 * f, 1 := r ! 1 * f, 2 := r ! 2 * f]"

text \<open>
  Modelled from the spec: \<^verbatim>\<open>unit_m4\<close> of the missing \<^verbatim>\<open>BLI_math\<close> library, the identity
  matrix.
\<close>

definition unit_m4 :: "real list list" where
  "unit_m4 = [[1, 0, 0, 0], [0, 1, 0, 0], [0, 0, 1, 0], [0, 0, 0, 1]]"

text \<open>
  Modelled from the spec: \<^verbatim>\<open>mul_m4_m4m4(R, A, B)\<close> of the missing \<^verbatim>\<open>BLI_math\<close> library, the
  spec's matrix product \<open>A \<times> B\<close>. A matrix \<^verbatim>\<open>m[4][4]\<close> is stored by columns (\<^verbatim>\<open>m[3]\<close> is
  the translation column), so entry \<^verbatim>\<open>R[i][j]\<close> is the sum of \<^verbatim>\<open>B[i][k] * A[k][j]\<close>.
\<close>

definition mul_m4_m4m4 :: "real list list \<Rightarrow> real list list \<Rightarrow> real list list" where
  "mul_m4_m4m4 A B =
     map (\<lambda>i. map (\<lambda>j. B ! i ! 0 * A ! 0 ! j + B ! i ! 1 * A ! 1 ! j
                       + B ! i ! 2 * A ! 2 ! j + B ! i ! 3 * A ! 3 ! j) [0, 1, 2, 3])
         [0, 1, 2, 3]"

text \<open>
  Modelled from the spec: \<^verbatim>\<open>transform_pivot_set_m4(mat, pivot)\<close> of the missing \<^verbatim>\<open>BLI_math\<close>
  library, the spec's recentring of a matrix about a pivot: the translation by \<open>+pivot\<close>
  times the matrix times the translation by \<open>-pivot\<close>.
\<close>

definition transform_pivot_set_m4 :: "real list list \<Rightarrow> real list \<Rightarrow> real list list" where
  "transform_pivot_set_m4 mat pivot =
     (let tmat = unit_m4[3 := (unit_m4 ! 3)[0 := pivot ! 0, 1 := pivot ! 1, 2 := pivot ! 2]];
          mat1 = mul_m4_m4m4 tmat mat;
          tmat' = tmat[3 := (tmat ! 3)[0 := - (tmat ! 3 ! 0), 1 := - (tmat ! 3 ! 1),
                                       2 := - (tmat ! 3 ! 2)]]
      in mul_m4_m4m4 mat1 tmat')"

record rctf =
  xmin :: real
  xmax :: real
  ymin :: real
  ymax :: real

text \<open>
  Modelled from the spec: \<^verbatim>\<open>BLI_rctf_isect_pt_v\<close> of the missing \<^verbatim>\<open>BLI_rect\<close> library;
  the spec's rectangle containment with inclusive bounds.
\<close>

definition BLI_rctf_isect_pt_v :: "rctf \<Rightarrow> real list \<Rightarrow> bool" where
  "BLI_rctf_isect_pt_v rect xy =
     (if xy ! 0 < xmin rect then False
      else if xy ! 0 > xmax rect then False
      else if xy ! 1 < ymin rect then False
      else if xy ! 1 > ymax rect then False
      else True)"

subsection \<open>The widget, its host and the drag session\<close>

text \<open>The struct \<^verbatim>\<open>RectTransformInteraction\<close> (lines 501-504).\<close>

record RectTransformInteraction =
  orig_mouse :: "real list"
  orig_matrix_offset :: "real list list"

text \<open>
  The target property \<^verbatim>\<open>"matrix"\<close> of the widget, as the widget uses it: the two accessors
  \<^verbatim>\<open>WM_manipulator_target_property_value_get_array\<close> and \<^verbatim>\<open>..._value_set_array\<close>, which
  read and write sixteen floats of the host's data \<open>'e\<close>. They belong to the host and are
  parameters of the model. A property whose \<^verbatim>\<open>type\<close> is \<^verbatim>\<open>NULL\<close> (not bound) is \<open>None\<close>.
\<close>

record 'e wmManipulatorProperty =
  value_get_array :: "'e \<Rightarrow> real list list"
  value_set_array :: "real list list \<Rightarrow> 'e \<Rightarrow> 'e"

text \<open>
  What the callbacks touch of the context \<^verbatim>\<open>bContext\<close>: the host's data behind the bound
  property, whether \<^verbatim>\<open>ED_region_tag_redraw\<close> has tagged the region, and whether
  \<^verbatim>\<open>WM_event_add_mousemove\<close> has queued a pointer move.
\<close>

record 'e bContext =
  target_data :: 'e
  region_redraw :: bool
  mousemove_added :: bool

text \<open>
  The fields of \<^verbatim>\<open>wmManipulator\<close> the callbacks use. \<open>dimensions\<close> and \<open>transform\<close> are the RNA
  properties read with \<^verbatim>\<open>RNA_float_get_array\<close> and \<^verbatim>\<open>RNA_enum_get\<close>; \<open>target_matrix\<close>
  is what \<^verbatim>\<open>WM_manipulator_target_property_find(mpr, "matrix")\<close> finds.
\<close>

record 'e wmManipulator =
  matrix_offset :: "real list list"
  highlight_part :: "cage2d_part option"
  interaction_data :: "RectTransformInteraction option"
  dimensions :: "real list"
  transform :: "xform_flag set"
  target_matrix :: "'e wmManipulatorProperty option"

record wmEvent =
  mval :: "int list"

text \<open>
  The operator return values of the missing header; the callbacks of this file return
  only \<^verbatim>\<open>OPERATOR_RUNNING_MODAL\<close>.
\<close>

datatype operator_status =
    OPERATOR_RUNNING_MODAL
  | OPERATOR_CANCELLED
  | OPERATOR_FINISHED
  | OPERATOR_PASS_THROUGH

text \<open>
  \<^verbatim>\<open>manipulator_window_project_2d(C, mpr, mval, axis, use_offset, r_co)\<close> is not in this
  file: it is a parameter \<open>project\<close> of every callback that calls it. It returns \<open>None\<close>
  where the C function returns \<^verbatim>\<open>false\<close>, and the point it writes to \<^verbatim>\<open>r_co\<close> otherwise.
\<close>

type_synonym 'e projector =
  "'e bContext \<Rightarrow> 'e wmManipulator \<Rightarrow> real list \<Rightarrow> nat \<Rightarrow> bool \<Rightarrow> real list option"

text \<open>The compound literal \<^verbatim>\<open>(const float[2]){UNPACK2(event->mval)}\<close>.\<close>

definition event_mval :: "wmEvent \<Rightarrow> real list" where
  "event_mval event = [real_of_int (mval event ! 0), real_of_int (mval event ! 1)]"

definition MANIPULATOR_RESIZER_WIDTH :: real where
  "MANIPULATOR_RESIZER_WIDTH = 20.0"

subsection \<open>Hit test\<close>

text \<open>
  \<^verbatim>\<open>manipulator_rect_transform_test_select\<close> (lines 403-499), in three blocks that each
  either return a part or fall through (\<open>None\<close>): the translate rectangle (lines 433-444),
  the four scale strips (lines 447-477) and the rotate square (lines 479-496). The local \<^verbatim>\<open>size\<close> is \<open>size_v\<close> here. The
  function's own \<open>None\<close> is its return value \<^verbatim>\<open>-1\<close>.
\<close>

definition test_select_translate ::
  "xform_flag set \<Rightarrow> real list \<Rightarrow> real list \<Rightarrow> real list \<Rightarrow> cage2d_part option" where
  "test_select_translate transform_flag size_v margin point_local =
     (if XFORM_FLAG_TRANSLATE \<in> transform_flag then
        (let r = \<lparr>xmin = - (size_v ! 0) + margin ! 0, xmax = size_v ! 0 - margin ! 0,
                  ymin = - (size_v ! 1) + margin ! 1, ymax = size_v ! 1 - margin ! 1\<rparr>;
             isect = BLI_rctf_isect_pt_v r point_local
         in if isect then Some PART_TRANSLATE else None)
      else None)"

definition test_select_scale ::
  "xform_flag set \<Rightarrow> real list \<Rightarrow> real list \<Rightarrow> real list \<Rightarrow> cage2d_part option" where
  "test_select_scale transform_flag size_v margin point_local =
     (if XFORM_FLAG_SCALE \<in> transform_flag \<or> XFORM_FLAG_SCALE_UNIFORM \<in> transform_flag then
        (let r_xmin = \<lparr>xmin = - (size_v ! 0), xmax = - (size_v ! 0) + margin ! 0,
                       ymin = - (size_v ! 1), ymax = size_v ! 1\<rparr>;
             r_xmax = \<lparr>xmin = size_v ! 0 - margin ! 0, xmax = size_v ! 0,
                       ymin = - (size_v ! 1), ymax = size_v ! 1\<rparr>;
             r_ymin = \<lparr>xmin = - (size_v ! 0), xmax = size_v ! 0,
                       ymin = - (size_v ! 1), ymax = - (size_v ! 1) + margin ! 1\<rparr>;
             r_ymax = \<lparr>xmin = - (size_v ! 0), xmax = size_v ! 0,
                       ymin = size_v ! 1 - margin ! 1, ymax = size_v ! 1\<rparr>
         in if BLI_rctf_isect_pt_v r_xmin point_local then
              (if BLI_rctf_isect_pt_v r_ymin point_local then Some PART_SCALE_MIN_X_MIN_Y
               else if BLI_rctf_isect_pt_v r_ymax point_local then Some PART_SCALE_MIN_X_MAX_Y
               else Some PART_SCALE_MIN_X)
            else if BLI_rctf_isect_pt_v r_xmax point_local then
              (if BLI_rctf_isect_pt_v r_ymin point_local then Some PART_SCALE_MAX_X_MIN_Y
               else if BLI_rctf_isect_pt_v r_ymax point_local then Some PART_SCALE_MAX_X_MAX_Y
               else Some PART_SCALE_MAX_X)
            else if BLI_rctf_isect_pt_v r_ymin point_local then Some PART_SCALE_MIN_Y
            else if BLI_rctf_isect_pt_v r_ymax point_local then Some PART_SCALE_MAX_Y
            else None)
      else None)"

definition test_select_rotate ::
  "xform_flag set \<Rightarrow> real list \<Rightarrow> real list \<Rightarrow> real list \<Rightarrow> cage2d_part option" where
  "test_select_rotate transform_flag size_v margin point_local =
     (if XFORM_FLAG_ROTATE \<in> transform_flag then
        (let r_rotate_pt = [0.0, size_v ! 1 + margin ! 1];
             r_rotate = \<lparr>xmin = r_rotate_pt ! 0 - margin ! 0 / 2.0,
                         xmax = r_rotate_pt ! 0 + margin ! 0 / 2.0,
                         ymin = r_rotate_pt ! 1 - margin ! 1 / 2.0,
                         ymax = r_rotate_pt ! 1 + margin ! 1 / 2.0\<rparr>
         in if BLI_rctf_isect_pt_v r_rotate point_local then Some PART_ROTATE else None)
      else None)"

definition manipulator_rect_transform_test_select ::
  "'e projector \<Rightarrow> 'e bContext \<Rightarrow> 'e wmManipulator \<Rightarrow> wmEvent \<Rightarrow> cage2d_part option" where
  "manipulator_rect_transform_test_select project C mpr event =
     (let dims = dimensions mpr;
          w = dims ! 0;
          h = dims ! 1;
          size_v = [w / 2.0, h / 2.0]
      in case project C mpr (event_mval event) 2 True of
           None \<Rightarrow> None
         | Some point_local \<Rightarrow>
             (let transform_flag = transform mpr;
                  aspx = (if dims ! 0 > dims ! 1 then h / w else 1.0);
                  aspy = (if dims ! 0 > dims ! 1 then 1.0 else w / h);
                  margin = [aspx * w / MANIPULATOR_RESIZER_WIDTH,
                            aspy * h / MANIPULATOR_RESIZER_WIDTH]
              in case test_select_translate transform_flag size_v margin point_local of
                   Some part \<Rightarrow> Some part
                 | None \<Rightarrow>
                     (case test_select_scale transform_flag size_v margin point_local of
                        Some part \<Rightarrow> Some part
                      | None \<Rightarrow>
                          (case test_select_rotate transform_flag size_v margin point_local of
                             Some part \<Rightarrow> Some part
                           | None \<Rightarrow> None))))"

subsection \<open>Drag begin\<close>

text \<open>
  \<^verbatim>\<open>manipulator_rect_transform_invoke\<close> (lines 511-527). \<^verbatim>\<open>MEM_callocN\<close> gives a zeroed
  struct; the projection writes \<^verbatim>\<open>orig_mouse\<close> when it succeeds.
\<close>

definition manipulator_rect_transform_invoke ::
  "'e projector \<Rightarrow> 'e bContext \<Rightarrow> 'e wmManipulator \<Rightarrow> wmEvent
     \<Rightarrow> operator_status \<times> 'e bContext \<times> 'e wmManipulator" where
  "manipulator_rect_transform_invoke project C mpr event =
     (let data = \<lparr>orig_mouse = [0, 0], orig_matrix_offset = replicate 4 (replicate 4 0)\<rparr>;
          data = data\<lparr>orig_matrix_offset := matrix_offset mpr\<rparr>;
          data = (case project C mpr (event_mval event) 2 False of
                    None \<Rightarrow> data\<lparr>orig_mouse := zero_v2\<rparr>
                  | Some co \<Rightarrow> data\<lparr>orig_mouse := co\<rparr>);
          mpr = mpr\<lparr>interaction_data := Some data\<rparr>
      in (OPERATOR_RUNNING_MODAL, C, mpr))"

subsection \<open>Drag update\<close>

text \<open>
  One turn of the loop of lines 605-613 on the locals \<^verbatim>\<open>delta_orig\<close>, \<^verbatim>\<open>delta_curr\<close> and
  \<^verbatim>\<open>scale\<close> (here \<open>scl\<close>), for the axis \<open>i\<close>.
\<close>

definition scale_axis_step ::
  "bool list \<Rightarrow> real list list \<Rightarrow> nat \<Rightarrow> real list \<times> real list \<times> real list
     \<Rightarrow> real list \<times> real list \<times> real list" where
  "scale_axis_step constrain_axis orig i st =
     (case st of (delta_orig, delta_curr, scl) \<Rightarrow>
        if constrain_axis ! i = False then
          (let neg = (delta_orig ! i < 0);
               delta_orig = (if neg then delta_orig[i := delta_orig ! i * (- 1)] else delta_orig);
               delta_curr = (if neg then delta_curr[i := delta_curr ! i * (- 1)] else delta_curr);
               scl = scl[i := 1 + ((delta_curr ! i - delta_orig ! i) / len_v3 (orig ! i))]
           in (delta_orig, delta_curr, scl))
        else st)"

text \<open>
  The scale branch of \<^verbatim>\<open>manipulator_rect_transform_modal\<close> (lines 575-629): the value it
  stores in \<^verbatim>\<open>mpr->matrix_offset\<close>, or the failed assertion of the pivot table. The array
  \<^verbatim>\<open>constrain_axis\<close> starts as \<^verbatim>\<open>{false}\<close>, that is both entries false.
\<close>

definition rect_transform_scale ::
  "xform_flag set \<Rightarrow> cage2d_part option \<Rightarrow> real list \<Rightarrow> RectTransformInteraction
     \<Rightarrow> real list \<Rightarrow> error + real list list" where
  "rect_transform_scale transform_flag part dims data point_local =
     (case (if XFORM_FLAG_TRANSLATE \<in> transform_flag
            then manipulator_rect_pivot_from_scale_part part
            else Inr (zero_v2, [False, False])) of
        Inl e \<Rightarrow> Inl e
      | Inr (pivot, constrain_axis) \<Rightarrow>
          (let matrix_scale = unit_m4;
               delta_orig = sub_v2_v2v2 (orig_mouse data) pivot;
               delta_curr = sub_v2_v2v2 point_local pivot;
               delta_orig = delta_orig[0 := delta_orig ! 0 / dims ! 0];
               delta_orig = delta_orig[1 := delta_orig ! 1 / dims ! 1];
               delta_curr = delta_curr[0 := delta_curr ! 0 / dims ! 0];
               delta_curr = delta_curr[1 := delta_curr ! 1 / dims ! 1];
               scl = snd (snd (fold (scale_axis_step constrain_axis (orig_matrix_offset data))
                                    [0..<2] (delta_orig, delta_curr, [1.0, 1.0])));
               scl = (if XFORM_FLAG_SCALE_UNIFORM \<in> transform_flag then
                        (if \<bar>scl ! 0 - 1.0\<bar> > \<bar>scl ! 1 - 1.0\<bar>
                         then scl[1 := scl ! 0] else scl[0 := scl ! 1])
                      else scl);
               matrix_scale = matrix_scale[0 := mul_v3_fl (matrix_scale ! 0) (scl ! 0)];
               matrix_scale = matrix_scale[1 := mul_v3_fl (matrix_scale ! 1) (scl ! 1)];
               matrix_scale = transform_pivot_set_m4 matrix_scale [pivot ! 0, pivot ! 1, 0.0]
           in Inr (mul_m4_m4m4 (orig_matrix_offset data) matrix_scale)))"

text \<open>
  \<^verbatim>\<open>manipulator_rect_transform_modal\<close> (lines 529-640). The three branches on
  \<^verbatim>\<open>mpr->highlight_part\<close> give the widget after the branch; the write to the bound property
  and the two requests to the host follow.
\<close>

definition manipulator_rect_transform_modal ::
  "'e projector \<Rightarrow> 'e bContext \<Rightarrow> 'e wmManipulator \<Rightarrow> wmEvent
     \<Rightarrow> error + (operator_status \<times> 'e bContext \<times> 'e wmManipulator)" where
  "manipulator_rect_transform_modal project C mpr event =
     (case interaction_data mpr of
        None \<Rightarrow> Inl NullPointer
      | Some data \<Rightarrow>
          (let dims = dimensions mpr;
               matrix_back = matrix_offset mpr;
               mpr = mpr\<lparr>matrix_offset := orig_matrix_offset data\<rparr>;
               ok = project C mpr (event_mval event) 2 False;
               mpr = mpr\<lparr>matrix_offset := matrix_back\<rparr>
           in case ok of
                None \<Rightarrow> Inr (OPERATOR_RUNNING_MODAL, C, mpr)
              | Some point_local \<Rightarrow>
                  (let transform_flag = transform mpr;
                       value_xy = [point_local ! 0 - orig_mouse data ! 0,
                                   point_local ! 1 - orig_mouse data ! 1];
                       mpr_prop = target_matrix mpr;
                       mpr = (case mpr_prop of
                                None \<Rightarrow> mpr
                              | Some prop \<Rightarrow>
                                  mpr\<lparr>matrix_offset := value_get_array prop (target_data C)\<rparr>);
                       branch =
                         (if highlight_part mpr = Some PART_TRANSLATE then
                            (let m = orig_matrix_offset data;
                                 m = m[3 := (m ! 3)[0 := orig_matrix_offset data ! 3 ! 0 + value_xy ! 0]];
                                 m = m[3 := (m ! 3)[1 := orig_matrix_offset data ! 3 ! 1 + value_xy ! 1]]
                             in Inr (mpr\<lparr>matrix_offset := m\<rparr>))
                          else if highlight_part mpr = Some PART_ROTATE then Inr mpr
                          else
                            (case rect_transform_scale transform_flag (highlight_part mpr)
                                    dims data point_local of
                               Inl e \<Rightarrow> Inl e
                             | Inr m \<Rightarrow> Inr (mpr\<lparr>matrix_offset := m\<rparr>)))
                   in case branch of
                        Inl e \<Rightarrow> Inl e
                      | Inr mpr \<Rightarrow>
                          (let C = (case mpr_prop of
                                      None \<Rightarrow> C
                                    | Some prop \<Rightarrow>
                                        C\<lparr>target_data :=
                                            value_set_array prop (matrix_offset mpr) (target_data C)\<rparr>);
                               C = C\<lparr>region_redraw := True\<rparr>;
                               C = C\<lparr>mousemove_added := True\<rparr>
                           in Inr (OPERATOR_RUNNING_MODAL, C, mpr)))))"

subsection \<open>Drag end\<close>

text \<open>\<^verbatim>\<open>manipulator_rect_transform_exit\<close> (lines 657-673).\<close>

definition manipulator_rect_transform_exit ::
  "'e bContext \<Rightarrow> 'e wmManipulator \<Rightarrow> bool \<Rightarrow> error + ('e bContext \<times> 'e wmManipulator)" where
  "manipulator_rect_transform_exit C mpr cancel =
     (if \<not> cancel then Inr (C, mpr)
      else
        (case interaction_data mpr of
           None \<Rightarrow> Inl NullPointer
         | Some data \<Rightarrow>
             (let mpr_prop = target_matrix mpr;
                  C = (case mpr_prop of
                         None \<Rightarrow> C
                       | Some prop \<Rightarrow>
                           C\<lparr>target_data :=
                               value_set_array prop (orig_matrix_offset data) (target_data C)\<rparr>);
                  mpr = mpr\<lparr>matrix_offset := orig_matrix_offset data\<rparr>
              in Inr (C, mpr))))"

text \<open>
  A drag session as the host runs it: after the begin, one update per pointer move. The
  first error ends the run.
\<close>

fun modal_updates ::
  "'e projector \<Rightarrow> 'e bContext \<Rightarrow> 'e wmManipulator \<Rightarrow> wmEvent list
     \<Rightarrow> error + ('e bContext \<times> 'e wmManipulator)" where
  "modal_updates project C mpr [] = Inr (C, mpr)"
| "modal_updates project C mpr (event # events) =
     (case manipulator_rect_transform_modal project C mpr event of
        Inl e \<Rightarrow> Inl e
      | Inr (status, C', mpr') \<Rightarrow> modal_updates project C' mpr' events)"

subsection \<open>The spec's description of an update\<close>

text \<open>
  The definitions of this subsection follow the words of the spec, not the code; the
  theorems below compare the callbacks with them.
\<close>

text \<open>A \<^verbatim>\<open>float[4][4]\<close>: four rows of four entries.\<close>

definition is_m4 :: "real list list \<Rightarrow> bool" where
  "is_m4 m = (length m = 4 \<and> list_all (\<lambda>r. length r = 4) m)"

text \<open>
  "After computing the new matrix for any branch, push it to the bound property and
  request a redraw of the owning region; also request a synthetic pointer-move. Returns
  running status": what an update that computes the matrix \<open>m\<close> returns.
\<close>

definition spec_update_result ::
  "'e bContext \<Rightarrow> 'e wmManipulator \<Rightarrow> real list list
     \<Rightarrow> operator_status \<times> 'e bContext \<times> 'e wmManipulator" where
  "spec_update_result C mpr m =
     (OPERATOR_RUNNING_MODAL,
      C\<lparr>target_data := (case target_matrix mpr of
                          None \<Rightarrow> target_data C
                        | Some prop \<Rightarrow> value_set_array prop m (target_data C)),
        region_redraw := True, mousemove_added := True\<rparr>,
      mpr\<lparr>matrix_offset := m\<rparr>)"

text \<open>
  "For each axis not constrained: if \<open>deltaOrig[axis] < 0\<close>, negate both; \<open>scale[axis] =
  1 + (deltaCurr[axis] - deltaOrig[axis]) / length\<close>"; a constrained axis keeps 1.
\<close>

definition spec_axis_scale :: "bool \<Rightarrow> real \<Rightarrow> real \<Rightarrow> real \<Rightarrow> real" where
  "spec_axis_scale constrained deltaOrig deltaCurr len =
     (if constrained then 1
      else if deltaOrig < 0 then 1 + ((- deltaCurr) - (- deltaOrig)) / len
      else 1 + (deltaCurr - deltaOrig) / len)"

text \<open>
  "\<open>deltaOrig = originPointerLocal - pivot\<close>, \<open>deltaCurr = pointerLocal - pivot\<close>, each
  divided component-wise by \<open>(width, height)\<close>", and the two factors from them.
\<close>

definition spec_scale_factors ::
  "real list \<Rightarrow> bool list \<Rightarrow> real list \<Rightarrow> RectTransformInteraction \<Rightarrow> real list
     \<Rightarrow> real list" where
  "spec_scale_factors pivot constrainAxis dims session pointerLocal =
     [spec_axis_scale (constrainAxis ! 0)
        ((orig_mouse session ! 0 - pivot ! 0) / dims ! 0)
        ((pointerLocal ! 0 - pivot ! 0) / dims ! 0)
        (len_v3 (orig_matrix_offset session ! 0)),
      spec_axis_scale (constrainAxis ! 1)
        ((orig_mouse session ! 1 - pivot ! 1) / dims ! 1)
        ((pointerLocal ! 1 - pivot ! 1) / dims ! 1)
        (len_v3 (orig_matrix_offset session ! 1))]"

text \<open>
  "If ScaleUniform is set, pick the axis with the larger deviation from 1.0 and force
  both axes to that value."
\<close>

definition spec_uniform :: "xform_flag set \<Rightarrow> real list \<Rightarrow> real list" where
  "spec_uniform flags s =
     (if XFORM_FLAG_SCALE_UNIFORM \<in> flags
      then (if \<bar>s ! 0 - 1\<bar> > \<bar>s ! 1 - 1\<bar> then [s ! 0, s ! 0] else [s ! 1, s ! 1])
      else s)"

text \<open>The translation by \<open>t\<close> and the pure scaling by \<open>s\<close> as matrices stored by columns.\<close>

definition translation_m4 :: "real list \<Rightarrow> real list list" where
  "translation_m4 t = [[1, 0, 0, 0], [0, 1, 0, 0], [0, 0, 1, 0], [t ! 0, t ! 1, 0, 1]]"

definition scaling_m4 :: "real list \<Rightarrow> real list list" where
  "scaling_m4 s = [[s ! 0, 0, 0, 0], [0, s ! 1, 0, 0], [0, 0, 1, 0], [0, 0, 0, 1]]"

text \<open>
  "Recenter it so scaling pivots about \<open>pivot\<close> (translate by \<open>-pivot\<close>, scale, translate
  by \<open>+pivot\<close>)": applied to a point from right to left.
\<close>

definition spec_recentered_scale :: "real list \<Rightarrow> real list \<Rightarrow> real list list" where
  "spec_recentered_scale pivot s =
     mul_m4_m4m4 (mul_m4_m4m4 (translation_m4 pivot) (scaling_m4 s))
                 (translation_m4 [- (pivot ! 0), - (pivot ! 1)])"

text \<open>A matrix applied to the point \<open>(x, y, 0, 1)\<close> of the cage's plane.\<close>

definition m4_apply_point :: "real list list \<Rightarrow> real list \<Rightarrow> real list" where
  "m4_apply_point m p = [m ! 0 ! 0 * p ! 0 + m ! 1 ! 0 * p ! 1 + m ! 3 ! 0,
                         m ! 0 ! 1 * p ! 0 + m ! 1 ! 1 * p ! 1 + m ! 3 ! 1]"

text \<open>
  "Resolve \<open>pivot, constrainAxis\<close> via the pivot table; if translate is disabled for this
  configuration, pivot defaults to the local origin with both axes unconstrained."
\<close>

definition spec_pivot ::
  "xform_flag set \<Rightarrow> cage2d_part option \<Rightarrow> error + (real list \<times> bool list)" where
  "spec_pivot flags part =
     (if XFORM_FLAG_TRANSLATE \<in> flags then manipulator_rect_pivot_from_scale_part part
      else Inr ([0, 0], [False, False]))"

text \<open>"\<open>newOffsetMatrix = originOffsetMatrix \<times> recenteredScaleMatrix\<close>", for given factors.\<close>

definition spec_scaled_offset ::
  "RectTransformInteraction \<Rightarrow> real list \<Rightarrow> real list \<Rightarrow> real list list" where
  "spec_scaled_offset session pivot s =
     mul_m4_m4m4 (orig_matrix_offset session) (spec_recentered_scale pivot s)"

text \<open>
  The cage of the hit test: \<open>halfSize = (width/2, height/2)\<close>, the margin with its aspect
  correction, the inner rectangle \<open>[-half+margin, half-margin]\<close> of the translate area
  and the four margin strips.
\<close>

definition cage_half :: "real list \<Rightarrow> real list" where
  "cage_half dims = [dims ! 0 / 2, dims ! 1 / 2]"

definition cage_margin :: "real list \<Rightarrow> real list" where
  "cage_margin dims =
     [(if dims ! 0 > dims ! 1 then dims ! 1 / dims ! 0 else 1) * dims ! 0 / 20,
      (if dims ! 0 > dims ! 1 then 1 else dims ! 0 / dims ! 1) * dims ! 1 / 20]"

definition translate_rect :: "real list \<Rightarrow> rctf" where
  "translate_rect dims =
     \<lparr>xmin = - (cage_half dims ! 0) + cage_margin dims ! 0,
      xmax = cage_half dims ! 0 - cage_margin dims ! 0,
      ymin = - (cage_half dims ! 1) + cage_margin dims ! 1,
      ymax = cage_half dims ! 1 - cage_margin dims ! 1\<rparr>"

definition in_scale_strip :: "real list \<Rightarrow> real list \<Rightarrow> bool" where
  "in_scale_strip dims p =
     (let hx = cage_half dims ! 0; hy = cage_half dims ! 1;
          mx = cage_margin dims ! 0; my = cage_margin dims ! 1
      in BLI_rctf_isect_pt_v \<lparr>xmin = - hx, xmax = - hx + mx, ymin = - hy, ymax = hy\<rparr> p
       \<or> BLI_rctf_isect_pt_v \<lparr>xmin = hx - mx, xmax = hx, ymin = - hy, ymax = hy\<rparr> p
       \<or> BLI_rctf_isect_pt_v \<lparr>xmin = - hx, xmax = hx, ymin = - hy, ymax = - hy + my\<rparr> p
       \<or> BLI_rctf_isect_pt_v \<lparr>xmin = - hx, xmax = hx, ymin = hy - my, ymax = hy\<rparr> p)"

subsection \<open>Concrete hosts and widgets\<close>

text \<open>
  A host whose data is the bound matrix itself, a widget of dimensions \<open>2 \<times> 2\<close> at the
  identity, and two projections: one that maps a window position to a tenth of it, one
  that always fails.
\<close>

definition ex_context :: "real list list bContext" where
  "ex_context = \<lparr>target_data = unit_m4, region_redraw = False, mousemove_added = False\<rparr>"

definition ex_property :: "real list list wmManipulatorProperty" where
  "ex_property = \<lparr>value_get_array = (\<lambda>d. d), value_set_array = (\<lambda>m d. m)\<rparr>"

definition ex_widget :: "cage2d_part option \<Rightarrow> xform_flag set \<Rightarrow> real list list wmManipulator" where
  "ex_widget part flags =
     \<lparr>matrix_offset = unit_m4, highlight_part = part, interaction_data = None,
      dimensions = [2, 2], transform = flags, target_matrix = Some ex_property\<rparr>"

definition ex_session :: "real list \<Rightarrow> RectTransformInteraction" where
  "ex_session p = \<lparr>orig_mouse = p, orig_matrix_offset = unit_m4\<rparr>"

definition ex_project :: "real list list projector" where
  "ex_project C mpr co axis use_offset = Some [co ! 0 / 10, co ! 1 / 10]"

definition ex_project_fail :: "real list list projector" where
  "ex_project_fail C mpr co axis use_offset = None"

section \<open>Properties\<close>

subsection \<open>The scale computation against the spec's formula\<close>

lemma upt_0_2: "[0..<2] = [0, Suc 0]"
  by (simp add: upt_rec)

lemma scale_loop_factors:
  "snd (snd (fold (scale_axis_step [c0, c1] orig) [0..<2] ([a0, a1], [b0, b1], [1, 1]))) =
     [spec_axis_scale c0 a0 b0 (len_v3 (orig ! 0)), spec_axis_scale c1 a1 b1 (len_v3 (orig ! 1))]"
  by (simp add: upt_0_2 scale_axis_step_def spec_axis_scale_def Let_def)

lemma recentre_code_spec:
  "transform_pivot_set_m4 [[s0, 0, 0, 0], [0, s1, 0, 0], [0, 0, 1, 0], [0, 0, 0, 1]] [px, py, 0] =
     spec_recentered_scale [px, py] [s0, s1]"
  by (simp add: transform_pivot_set_m4_def unit_m4_def mul_m4_m4m4_def
      spec_recentered_scale_def translation_m4_def scaling_m4_def Let_def)

lemma scale_rows:
  "(unit_m4[0 := mul_v3_fl (unit_m4 ! 0) s0])[1 := mul_v3_fl ((unit_m4[0 := mul_v3_fl (unit_m4 ! 0) s0]) ! 1) s1]
     = [[s0, 0, 0, 0], [0, s1, 0, 0], [0, 0, 1, 0], [0, 0, 0, 1]]"
  by (simp add: unit_m4_def mul_v3_fl_def)

lemma recentred_closed_form:
  "spec_recentered_scale [px, py] [s0, s1] =
     [[s0, 0, 0, 0], [0, s1, 0, 0], [0, 0, 1, 0], [px - s0 * px, py - s1 * py, 0, 1]]"
  by (simp add: mul_m4_m4m4_def
      spec_recentered_scale_def translation_m4_def scaling_m4_def Let_def algebra_simps)

lemma recentred_point:
  "m4_apply_point (spec_recentered_scale [px, py] [s0, s1]) [x, y] =
     [px + s0 * (x - px), py + s1 * (y - py)]"
  by (simp add: recentred_closed_form m4_apply_point_def algebra_simps)

lemma spec_pivot_shape:
  "spec_pivot flags part = Inr (pivot, ca) \<Longrightarrow>
     \<exists>px py cx cy. pivot = [px, py] \<and> ca = [cx, cy]"
  by (cases part rule: manipulator_rect_pivot_from_scale_part.cases)
     (auto simp: spec_pivot_def split: if_splits)


lemma rect_transform_scale_pivot:
  assumes "spec_pivot flags part = Inr (pivot, ca)"
  shows "rect_transform_scale flags part dims data pl =
           Inr (spec_scaled_offset data pivot
                  (spec_uniform flags (spec_scale_factors pivot ca dims data pl)))"
proof -
  from spec_pivot_shape [OF assms] obtain px py cx cy
    where shape: "pivot = [px, py]" "ca = [cx, cy]" by blast
  have res: "(if XFORM_FLAG_TRANSLATE \<in> flags
            then manipulator_rect_pivot_from_scale_part part
            else Inr (zero_v2, [False, False])) = Inr ([px, py], [cx, cy])"
    using assms shape by (auto simp: spec_pivot_def zero_v2_def split: if_splits)
  show ?thesis
    unfolding rect_transform_scale_def res
    by (simp add: shape Let_def sub_v2_v2v2_def scale_loop_factors unit_m4_def mul_v3_fl_def
        spec_scaled_offset_def spec_uniform_def spec_scale_factors_def recentre_code_spec)
qed

lemma rect_transform_scale_fail:
  assumes "spec_pivot flags part = Inl e"
  shows "rect_transform_scale flags part dims data pl = Inl e"
  using assms by (simp add: rect_transform_scale_def spec_pivot_def zero_v2_def split: if_splits)


lemma modal_scale_branch:
  assumes "interaction_data mpr = Some data"
    and "project C (mpr\<lparr>matrix_offset := orig_matrix_offset data\<rparr>) (event_mval event) 2 False
           = Some pl"
    and "highlight_part mpr \<noteq> Some PART_TRANSLATE"
    and "highlight_part mpr \<noteq> Some PART_ROTATE"
    and "spec_pivot (transform mpr) (highlight_part mpr) = Inr (pivot, ca)"
  shows "manipulator_rect_transform_modal project C mpr event =
           Inr (spec_update_result C mpr
                  (spec_scaled_offset data pivot
                     (spec_uniform (transform mpr)
                        (spec_scale_factors pivot ca (dimensions mpr) data pl))))"
  using assms
  by (simp add: manipulator_rect_transform_modal_def spec_update_result_def Let_def
      rect_transform_scale_pivot split: option.splits)

lemma modal_keeps_session:
  assumes "manipulator_rect_transform_modal project C mpr event = Inr (status, C', mpr')"
  shows "interaction_data mpr' = interaction_data mpr \<and> target_matrix mpr' = target_matrix mpr
         \<and> highlight_part mpr' = highlight_part mpr \<and> status = OPERATOR_RUNNING_MODAL"
  using assms
  by (auto simp: manipulator_rect_transform_modal_def Let_def
      split: option.splits if_splits sum.splits)

subsection \<open>What a session keeps\<close>

lemma modal_updates_keep_session:
  assumes "modal_updates project C mpr events = Inr (C', mpr')"
  shows "interaction_data mpr' = interaction_data mpr \<and> target_matrix mpr' = target_matrix mpr
         \<and> highlight_part mpr' = highlight_part mpr"
  using assms
proof (induction events arbitrary: C mpr)
  case Nil
  then show ?case by simp
next
  case (Cons event events)
  from Cons.prems obtain status C1 mpr1
    where step: "manipulator_rect_transform_modal project C mpr event = Inr (status, C1, mpr1)"
      and rest: "modal_updates project C1 mpr1 events = Inr (C', mpr')"
    by (auto split: sum.splits)
  from modal_keeps_session [OF step] Cons.IH [OF rest] show ?case by simp
qed

lemma invoke_snapshot:
  assumes "manipulator_rect_transform_invoke project C mpr event = (status, C', mpr')"
  shows "status = OPERATOR_RUNNING_MODAL \<and> C' = C \<and> target_matrix mpr' = target_matrix mpr \<and>
         highlight_part mpr' = highlight_part mpr \<and>
         (\<exists>data. interaction_data mpr' = Some data \<and>
                 orig_matrix_offset data = matrix_offset mpr)"
  using assms
  by (auto simp: manipulator_rect_transform_invoke_def Let_def split: option.splits)

lemma list4_nth:
  assumes "length xs = 4"
  shows "xs = [xs ! 0, xs ! 1, xs ! 2, xs ! 3]"
proof -
  from assms obtain a b c d where "xs = [a, b, c, d]"
    by (auto simp: eval_nat_numeral length_Suc_conv)
  then show ?thesis by simp
qed

lemma spec_update_result_matrix:
  "matrix_offset (snd (snd (spec_update_result C mpr m))) = m"
  by (simp add: spec_update_result_def)

lemma spec_update_result_inject:
  assumes "spec_update_result C mpr m = spec_update_result C mpr m'"
  shows "m = m'"
proof -
  from assms have "matrix_offset (snd (snd (spec_update_result C mpr m)))
                     = matrix_offset (snd (snd (spec_update_result C mpr m')))"
    by simp
  then show ?thesis by (simp only: spec_update_result_matrix)
qed

subsection \<open>Scale parts\<close>

lemma spec_pivot_scale_part:
  assumes "part \<in> set scale_parts"
  shows "\<exists>pivot ca. spec_pivot flags (Some part) = Inr (pivot, ca)"
  using assms
  by (auto simp: spec_pivot_def scale_parts_def scale_edge_parts_def scale_corner_parts_def)

lemma scale_part_not_translate_rotate:
  assumes "part \<in> set scale_parts"
  shows "part \<noteq> PART_TRANSLATE \<and> part \<noteq> PART_ROTATE"
  using assms
  by (auto simp: scale_parts_def scale_edge_parts_def scale_corner_parts_def)

lemma constrained_factor_one:
  "ca ! i \<Longrightarrow> i < 2 \<Longrightarrow> spec_scale_factors pivot ca dims data pl ! i = 1"
  by (cases i) (auto simp: spec_scale_factors_def spec_axis_scale_def less_Suc_eq numeral_2_eq_2)

subsection \<open>An update on a part returns\<close>

lemma part_cases:
  "part = PART_TRANSLATE \<or> part = PART_ROTATE \<or> part \<in> set scale_parts"
  by (cases part) (simp_all add: scale_parts_def scale_edge_parts_def scale_corner_parts_def)

lemma modal_on_part_returns:
  assumes "interaction_data mpr = Some data"
    and "highlight_part mpr = Some part"
  shows "\<exists>C' mpr'. manipulator_rect_transform_modal project C mpr event
                      = Inr (OPERATOR_RUNNING_MODAL, C', mpr')"
proof (cases "project C (mpr\<lparr>matrix_offset := orig_matrix_offset data\<rparr>) (event_mval event) 2 False")
  case None
  with assms(1) show ?thesis
    by (simp add: manipulator_rect_transform_modal_def Let_def)
next
  case (Some point_local)
  from part_cases [of part] consider
    (translate) "part = PART_TRANSLATE" | (rotate) "part = PART_ROTATE"
    | (scale) "part \<in> set scale_parts"
    by blast
  then show ?thesis
  proof cases
    case translate
    with assms Some show ?thesis
      by (simp add: manipulator_rect_transform_modal_def Let_def split: option.splits)
  next
    case rotate
    with assms Some show ?thesis
      by (simp add: manipulator_rect_transform_modal_def Let_def split: option.splits)
  next
    case scale
    from spec_pivot_scale_part [OF scale] obtain pivot ca
      where "spec_pivot (transform mpr) (Some part) = Inr (pivot, ca)"
      by blast
    with assms(2)
    have pivot: "spec_pivot (transform mpr) (highlight_part mpr) = Inr (pivot, ca)"
      by simp
    from scale_part_not_translate_rotate [OF scale] assms(2)
    have other: "highlight_part mpr \<noteq> Some PART_TRANSLATE" "highlight_part mpr \<noteq> Some PART_ROTATE"
      by simp_all
    from assms(1) Some other pivot
    have "manipulator_rect_transform_modal project C mpr event =
           Inr (spec_update_result C mpr
                  (spec_scaled_offset data pivot
                     (spec_uniform (transform mpr)
                        (spec_scale_factors pivot ca (dimensions mpr) data point_local))))"
      by (rule modal_scale_branch)
    then show ?thesis
      by (simp add: spec_update_result_def)
  qed
qed

lemma modal_updates_on_part_return:
  assumes "interaction_data mpr = Some data"
    and "highlight_part mpr = Some part"
  shows "\<exists>C' mpr'. modal_updates project C mpr events = Inr (C', mpr')"
  using assms
proof (induction events arbitrary: C mpr)
  case Nil
  then show ?case by simp
next
  case (Cons event events)
  from modal_on_part_returns [OF Cons.prems] obtain C1 mpr1
    where step: "manipulator_rect_transform_modal project C mpr event
                   = Inr (OPERATOR_RUNNING_MODAL, C1, mpr1)"
    by blast
  from modal_keeps_session [OF step] Cons.prems
  have "interaction_data mpr1 = Some data" "highlight_part mpr1 = Some part"
    by simp_all
  from Cons.IH [OF this] obtain C' mpr'
    where "modal_updates project C1 mpr1 events = Inr (C', mpr')"
    by blast
  with step show ?case by simp
qed


subsection \<open>The claims\<close>

text \<open>
  C4. For each of the eight scale parts the pivot table returns a pivot whose two
  coordinates are each one of -0.5, 0, 0.5 and which is the point opposite the dragged
  handle (Min X gives (0.5, 0), Min X Min Y gives (0.5, 0.5)); both axes are unconstrained
  for the four corner parts, and exactly the axis along the edge is constrained for the
  four edge parts. Any other input (the translate part, the rotate part, no part) fails
  the assertion, and only those do.
\<close>

theorem pivot_from_scale_part_table:
  "list_all pivot_entry_ok scale_parts \<and>
   manipulator_rect_pivot_from_scale_part (Some PART_SCALE_MIN_X) = Inr ([0.5, 0], [False, True]) \<and>
   manipulator_rect_pivot_from_scale_part (Some PART_SCALE_MIN_X_MIN_Y)
     = Inr ([0.5, 0.5], [False, False]) \<and>
   (manipulator_rect_pivot_from_scale_part part = Inl AssertFailed)
     = (part \<notin> set (map Some scale_parts))"
proof -
  have table: "list_all pivot_entry_ok scale_parts"
    by (simp add: scale_parts_def scale_edge_parts_def scale_corner_parts_def pivot_entry_ok_def)
  have other: "(manipulator_rect_pivot_from_scale_part part = Inl AssertFailed)
                 = (part \<notin> set (map Some scale_parts))"
    by (cases part rule: manipulator_rect_pivot_from_scale_part.cases)
       (simp_all add: scale_parts_def scale_edge_parts_def scale_corner_parts_def)
  from table other show ?thesis by simp
qed

text \<open>
  C10. Whenever the projection of the pointer to the widget's local space fails, the hit
  test returns the value \<^verbatim>\<open>-1\<close> (here \<open>None\<close>), whatever the transform flags and the
  dimensions are: no flag or region is looked at. It is the value of a geometric miss.
\<close>

theorem test_select_projection_failure:
  assumes "project C mpr (event_mval event) 2 True = None"
  shows "manipulator_rect_transform_test_select project C mpr event = None"
proof -
  have "manipulator_rect_transform_test_select project C mpr event =
          (case project C mpr (event_mval event) 2 True of None \<Rightarrow> None
           | Some point_local \<Rightarrow> manipulator_rect_transform_test_select
               (\<lambda>C mpr co axis use_offset. Some point_local) C mpr event)"
    by (simp add: manipulator_rect_transform_test_select_def Let_def split: option.splits)
  with assms show ?thesis by simp
qed

text \<open>
  The failing projection on a widget with every transform enabled, beside a geometric miss
  of the same widget (the pointer projects to \<open>(5, 5)\<close>, far outside the \<open>2 \<times> 2\<close> cage):
  both give \<open>None\<close>.
\<close>

theorem test_select_projection_failure_witness:
  "ex_project_fail ex_context
      (ex_widget None {XFORM_FLAG_TRANSLATE, XFORM_FLAG_ROTATE, XFORM_FLAG_SCALE,
                       XFORM_FLAG_SCALE_UNIFORM})
      (event_mval \<lparr>mval = [0, 0]\<rparr>) 2 True = None \<and>
   manipulator_rect_transform_test_select ex_project_fail ex_context
      (ex_widget None {XFORM_FLAG_TRANSLATE, XFORM_FLAG_ROTATE, XFORM_FLAG_SCALE,
                       XFORM_FLAG_SCALE_UNIFORM}) \<lparr>mval = [0, 0]\<rparr> = None \<and>
   manipulator_rect_transform_test_select ex_project ex_context
      (ex_widget None {XFORM_FLAG_TRANSLATE, XFORM_FLAG_ROTATE, XFORM_FLAG_SCALE,
                       XFORM_FLAG_SCALE_UNIFORM}) \<lparr>mval = [50, 50]\<rparr> = None"
proof -
  have fails: "ex_project_fail ex_context
      (ex_widget None {XFORM_FLAG_TRANSLATE, XFORM_FLAG_ROTATE, XFORM_FLAG_SCALE,
                       XFORM_FLAG_SCALE_UNIFORM})
      (event_mval \<lparr>mval = [0, 0]\<rparr>) 2 True = None"
    by (simp add: ex_project_fail_def)
  have miss: "manipulator_rect_transform_test_select ex_project ex_context
      (ex_widget None {XFORM_FLAG_TRANSLATE, XFORM_FLAG_ROTATE, XFORM_FLAG_SCALE,
                       XFORM_FLAG_SCALE_UNIFORM}) \<lparr>mval = [50, 50]\<rparr> = None"
    by (simp add: manipulator_rect_transform_test_select_def ex_project_def ex_widget_def
        event_mval_def test_select_translate_def test_select_scale_def test_select_rotate_def
        BLI_rctf_isect_pt_v_def MANIPULATOR_RESIZER_WIDTH_def Let_def)
  from fails miss
    test_select_projection_failure
      [where project = ex_project_fail and C = ex_context and event = "\<lparr>mval = [0, 0]\<rparr>"
         and mpr = "ex_widget None {XFORM_FLAG_TRANSLATE, XFORM_FLAG_ROTATE, XFORM_FLAG_SCALE,
                                    XFORM_FLAG_SCALE_UNIFORM}"]
  show ?thesis by simp
qed

text \<open>
  C7. With Translate enabled (and Scale beside it), a pointer that projects into the inner
  rectangle \<open>[-half + margin, half - margin]\<close> is resolved to the translate part, also
  where it lies in a scale margin strip: the translate test comes first and returns.
\<close>

theorem test_select_translate_first:
  assumes "XFORM_FLAG_TRANSLATE \<in> transform mpr"
    and "project C mpr (event_mval event) 2 True = Some point_local"
    and "BLI_rctf_isect_pt_v (translate_rect (dimensions mpr)) point_local"
  shows "manipulator_rect_transform_test_select project C mpr event = Some PART_TRANSLATE"
proof -
  let ?size = "[dimensions mpr ! 0 / 2.0, dimensions mpr ! 1 / 2.0]"
  let ?margin = "[(if dimensions mpr ! 0 > dimensions mpr ! 1
                   then dimensions mpr ! 1 / dimensions mpr ! 0 else 1.0)
                    * dimensions mpr ! 0 / MANIPULATOR_RESIZER_WIDTH,
                  (if dimensions mpr ! 0 > dimensions mpr ! 1
                   then 1.0 else dimensions mpr ! 0 / dimensions mpr ! 1)
                    * dimensions mpr ! 1 / MANIPULATOR_RESIZER_WIDTH]"
  have "test_select_translate (transform mpr) ?size ?margin point_local =
          (if BLI_rctf_isect_pt_v (translate_rect (dimensions mpr)) point_local
           then Some PART_TRANSLATE else None)"
    using assms(1)
    by (simp add: test_select_translate_def translate_rect_def cage_half_def cage_margin_def
        MANIPULATOR_RESIZER_WIDTH_def Let_def)
  with assms(3)
  have first: "test_select_translate (transform mpr) ?size ?margin point_local
                 = Some PART_TRANSLATE"
    by simp
  show ?thesis
    unfolding manipulator_rect_transform_test_select_def Let_def
    by (simp only: assms(2) first option.case)
qed

text \<open>
  The point \<open>(-0.9, 0)\<close> of the \<open>2 \<times> 2\<close> cage (margin \<open>0.1\<close>) is on the border of the
  inner rectangle and in the strip of the Min X edge; the hit test answers translate.
\<close>

theorem test_select_translate_first_witness:
  "XFORM_FLAG_TRANSLATE \<in> transform (ex_widget None {XFORM_FLAG_TRANSLATE, XFORM_FLAG_SCALE}) \<and>
   XFORM_FLAG_SCALE \<in> transform (ex_widget None {XFORM_FLAG_TRANSLATE, XFORM_FLAG_SCALE}) \<and>
   ex_project ex_context (ex_widget None {XFORM_FLAG_TRANSLATE, XFORM_FLAG_SCALE})
      (event_mval \<lparr>mval = [-9, 0]\<rparr>) 2 True = Some [-0.9, 0] \<and>
   BLI_rctf_isect_pt_v (translate_rect [2, 2]) [-0.9, 0] \<and>
   in_scale_strip [2, 2] [-0.9, 0] \<and>
   manipulator_rect_transform_test_select ex_project ex_context
      (ex_widget None {XFORM_FLAG_TRANSLATE, XFORM_FLAG_SCALE}) \<lparr>mval = [-9, 0]\<rparr>
     = Some PART_TRANSLATE"
proof -
  let ?w = "ex_widget None {XFORM_FLAG_TRANSLATE, XFORM_FLAG_SCALE}"
  have flag: "XFORM_FLAG_TRANSLATE \<in> transform ?w" "XFORM_FLAG_SCALE \<in> transform ?w"
    by (simp_all add: ex_widget_def)
  have proj: "ex_project ex_context ?w (event_mval \<lparr>mval = [-9, 0]\<rparr>) 2 True = Some [-0.9, 0]"
    by (simp add: ex_project_def event_mval_def)
  have inside: "BLI_rctf_isect_pt_v (translate_rect (dimensions ?w)) [-0.9, 0]"
    by (simp add: ex_widget_def translate_rect_def cage_half_def cage_margin_def
        BLI_rctf_isect_pt_v_def)
  have strip: "in_scale_strip [2, 2] [-0.9, 0]"
    by (simp add: in_scale_strip_def cage_half_def cage_margin_def BLI_rctf_isect_pt_v_def)
  from flag proj inside strip
    test_select_translate_first
      [where project = ex_project and C = ex_context and event = "\<lparr>mval = [-9, 0]\<rparr>"
         and mpr = ?w and point_local = "[-0.9, 0]"]
  show ?thesis by (simp add: ex_widget_def)
qed

text \<open>
  C9. A failed projection is recovered locally. At drag begin the origin of the pointer
  becomes the local origin \<open>(0, 0)\<close> and the session starts with the running status; at
  an update the event changes nothing (widget and host are returned as they were) and the
  running status is returned again.
\<close>

theorem projection_failure_recovered:
  "(project C mpr (event_mval event) 2 False = None \<longrightarrow>
      manipulator_rect_transform_invoke project C mpr event =
        (OPERATOR_RUNNING_MODAL, C,
         mpr\<lparr>interaction_data :=
               Some \<lparr>orig_mouse = [0, 0], orig_matrix_offset = matrix_offset mpr\<rparr>\<rparr>)) \<and>
   (interaction_data mpr = Some data \<and>
    project C (mpr\<lparr>matrix_offset := orig_matrix_offset data\<rparr>) (event_mval event) 2 False = None
      \<longrightarrow>
      manipulator_rect_transform_modal project C mpr event = Inr (OPERATOR_RUNNING_MODAL, C, mpr))"
proof (intro conjI impI)
  assume "project C mpr (event_mval event) 2 False = None"
  then show "manipulator_rect_transform_invoke project C mpr event =
        (OPERATOR_RUNNING_MODAL, C,
         mpr\<lparr>interaction_data :=
               Some \<lparr>orig_mouse = [0, 0], orig_matrix_offset = matrix_offset mpr\<rparr>\<rparr>)"
    by (simp add: manipulator_rect_transform_invoke_def zero_v2_def Let_def)
next
  assume "interaction_data mpr = Some data \<and>
    project C (mpr\<lparr>matrix_offset := orig_matrix_offset data\<rparr>) (event_mval event) 2 False = None"
  then show "manipulator_rect_transform_modal project C mpr event
               = Inr (OPERATOR_RUNNING_MODAL, C, mpr)"
    by (simp add: manipulator_rect_transform_modal_def Let_def)
qed

text \<open>
  With the projection that always fails: the press on the Max X handle starts a session
  at the origin, and a pointer move during that session leaves everything as it is.
\<close>

theorem projection_failure_recovered_witness:
  "manipulator_rect_transform_invoke ex_project_fail ex_context
      (ex_widget (Some PART_SCALE_MAX_X) {XFORM_FLAG_TRANSLATE, XFORM_FLAG_SCALE}) \<lparr>mval = [9, 0]\<rparr>
     = (OPERATOR_RUNNING_MODAL, ex_context,
        (ex_widget (Some PART_SCALE_MAX_X) {XFORM_FLAG_TRANSLATE, XFORM_FLAG_SCALE})
          \<lparr>interaction_data := Some (ex_session [0, 0])\<rparr>) \<and>
   manipulator_rect_transform_modal ex_project_fail ex_context
      ((ex_widget (Some PART_SCALE_MAX_X) {XFORM_FLAG_TRANSLATE, XFORM_FLAG_SCALE})
          \<lparr>interaction_data := Some (ex_session [0, 0])\<rparr>) \<lparr>mval = [15, 0]\<rparr>
     = Inr (OPERATOR_RUNNING_MODAL, ex_context,
        (ex_widget (Some PART_SCALE_MAX_X) {XFORM_FLAG_TRANSLATE, XFORM_FLAG_SCALE})
          \<lparr>interaction_data := Some (ex_session [0, 0])\<rparr>)"
proof -
  let ?w = "ex_widget (Some PART_SCALE_MAX_X) {XFORM_FLAG_TRANSLATE, XFORM_FLAG_SCALE}"
  have press: "manipulator_rect_transform_invoke ex_project_fail ex_context ?w \<lparr>mval = [9, 0]\<rparr>
     = (OPERATOR_RUNNING_MODAL, ex_context, ?w\<lparr>interaction_data := Some (ex_session [0, 0])\<rparr>)"
    using projection_failure_recovered
      [where project = ex_project_fail and C = ex_context and mpr = ?w
         and event = "\<lparr>mval = [9, 0]\<rparr>"]
    by (simp add: ex_project_fail_def ex_session_def ex_widget_def)
  have update: "manipulator_rect_transform_modal ex_project_fail ex_context
      (?w\<lparr>interaction_data := Some (ex_session [0, 0])\<rparr>) \<lparr>mval = [15, 0]\<rparr>
     = Inr (OPERATOR_RUNNING_MODAL, ex_context, ?w\<lparr>interaction_data := Some (ex_session [0, 0])\<rparr>)"
    using projection_failure_recovered
      [where project = ex_project_fail and C = ex_context
         and mpr = "?w\<lparr>interaction_data := Some (ex_session [0, 0])\<rparr>"
         and data = "ex_session [0, 0]" and event = "\<lparr>mval = [15, 0]\<rparr>"]
    by (simp add: ex_project_fail_def)
  from press update show ?thesis by simp
qed

text \<open>
  C8. An update while the rotate part is active applies no rotation: the offset matrix
  it leaves is the one read from the bound property at this update (the widget's own
  matrix when no property is bound), which is the pre-drag matrix when the property
  holds it. That value is written back to the property and the host is asked to redraw.
\<close>

theorem modal_rotate_inert:
  assumes "interaction_data mpr = Some data"
    and "project C (mpr\<lparr>matrix_offset := orig_matrix_offset data\<rparr>) (event_mval event) 2 False
           = Some point_local"
    and "highlight_part mpr = Some PART_ROTATE"
  shows "manipulator_rect_transform_modal project C mpr event =
           Inr (spec_update_result C mpr
                  (case target_matrix mpr of
                     None \<Rightarrow> matrix_offset mpr
                   | Some prop \<Rightarrow> value_get_array prop (target_data C))) \<and>
         (\<forall>prop. target_matrix mpr = Some prop \<longrightarrow>
                 value_get_array prop (target_data C) = orig_matrix_offset data \<longrightarrow>
                 manipulator_rect_transform_modal project C mpr event =
                   Inr (spec_update_result C mpr (orig_matrix_offset data)))"
proof -
  have inert: "manipulator_rect_transform_modal project C mpr event =
           Inr (spec_update_result C mpr
                  (case target_matrix mpr of
                     None \<Rightarrow> matrix_offset mpr
                   | Some prop \<Rightarrow> value_get_array prop (target_data C)))"
    using assms
    by (simp add: manipulator_rect_transform_modal_def spec_update_result_def Let_def
        split: option.splits)
  then show ?thesis by simp
qed

text \<open>
  A rotate drag on the widget whose bound property holds the identity: the pointer moves
  from \<open>(0, 1.15)\<close> to \<open>(3, 4)\<close> and the matrix is still the identity.
\<close>

theorem modal_rotate_inert_witness:
  "manipulator_rect_transform_modal ex_project ex_context
      ((ex_widget (Some PART_ROTATE) {XFORM_FLAG_ROTATE})
          \<lparr>interaction_data := Some (ex_session [0, 1.15])\<rparr>) \<lparr>mval = [30, 40]\<rparr>
     = Inr (OPERATOR_RUNNING_MODAL,
            ex_context\<lparr>region_redraw := True, mousemove_added := True\<rparr>,
            (ex_widget (Some PART_ROTATE) {XFORM_FLAG_ROTATE})
               \<lparr>interaction_data := Some (ex_session [0, 1.15])\<rparr>)"
  using modal_rotate_inert
    [where project = ex_project and C = ex_context and event = "\<lparr>mval = [30, 40]\<rparr>"
       and mpr = "(ex_widget (Some PART_ROTATE) {XFORM_FLAG_ROTATE})
                     \<lparr>interaction_data := Some (ex_session [0, 1.15])\<rparr>"
       and data = "ex_session [0, 1.15]" and point_local = "[3, 4]"]
  by (simp add: ex_project_def ex_widget_def ex_session_def ex_context_def ex_property_def
      event_mval_def spec_update_result_def)

text \<open>
  C2. An update while the translate part is active, with the pointer projected to
  \<open>point_local\<close> and \<open>delta = point_local - orig_mouse\<close>, leaves the pre-drag snapshot with
  entry \<open>[3][0]\<close> incremented by \<open>delta\<close>'s x and entry \<open>[3][1]\<close> by its y; every other
  entry of the \<open>4 \<times> 4\<close> matrix is the snapshot's.
\<close>

theorem modal_translate_only_translation:
  assumes "interaction_data mpr = Some data"
    and "project C (mpr\<lparr>matrix_offset := orig_matrix_offset data\<rparr>) (event_mval event) 2 False
           = Some point_local"
    and "highlight_part mpr = Some PART_TRANSLATE"
    and "is_m4 (orig_matrix_offset data)"
  shows "\<exists>m. manipulator_rect_transform_modal project C mpr event
               = Inr (spec_update_result C mpr m) \<and>
             is_m4 m \<and>
             m ! 3 ! 0 = orig_matrix_offset data ! 3 ! 0 + (point_local ! 0 - orig_mouse data ! 0) \<and>
             m ! 3 ! 1 = orig_matrix_offset data ! 3 ! 1 + (point_local ! 1 - orig_mouse data ! 1) \<and>
             (\<forall>i<4. \<forall>j<4. (i, j) \<noteq> (3, 0) \<longrightarrow> (i, j) \<noteq> (3, 1) \<longrightarrow>
                        m ! i ! j = orig_matrix_offset data ! i ! j)"
proof -
  let ?orig = "orig_matrix_offset data"
  let ?m = "?orig[3 := (?orig ! 3)[0 := ?orig ! 3 ! 0 + (point_local ! 0 - orig_mouse data ! 0),
                                   1 := ?orig ! 3 ! 1 + (point_local ! 1 - orig_mouse data ! 1)]]"
  from assms(4) have len: "length ?orig = 4" "length (?orig ! 3) = 4"
    by (simp_all add: is_m4_def list_all_length)
  have run: "manipulator_rect_transform_modal project C mpr event
               = Inr (spec_update_result C mpr ?m)"
    using assms(1-3) len
    by (simp add: manipulator_rect_transform_modal_def spec_update_result_def Let_def
        split: option.splits)
  have shape: "is_m4 ?m"
    using assms(4) len by (auto simp: is_m4_def list_all_length nth_list_update)
  have x: "?m ! 3 ! 0 = ?orig ! 3 ! 0 + (point_local ! 0 - orig_mouse data ! 0)"
    using len by simp
  have y: "?m ! 3 ! 1 = ?orig ! 3 ! 1 + (point_local ! 1 - orig_mouse data ! 1)"
    using len by simp
  have others: "\<forall>i<4. \<forall>j<4. (i, j) \<noteq> (3, 0) \<longrightarrow> (i, j) \<noteq> (3, 1) \<longrightarrow> ?m ! i ! j = ?orig ! i ! j"
    using len by (auto simp: nth_list_update)
  from run shape x y others show ?thesis by blast
qed

text \<open>
  The spec's scenario: translate only, pressed at the local origin, the pointer dragged
  by \<open>(+5, -3)\<close>. The translation column of the identity becomes \<open>(5, -3, 0, 1)\<close>.
\<close>

theorem modal_translate_only_translation_witness:
  "manipulator_rect_transform_modal ex_project ex_context
      ((ex_widget (Some PART_TRANSLATE) {XFORM_FLAG_TRANSLATE})
          \<lparr>interaction_data := Some (ex_session [0, 0])\<rparr>) \<lparr>mval = [50, -30]\<rparr>
     = Inr (spec_update_result ex_context
              ((ex_widget (Some PART_TRANSLATE) {XFORM_FLAG_TRANSLATE})
                  \<lparr>interaction_data := Some (ex_session [0, 0])\<rparr>)
              [[1, 0, 0, 0], [0, 1, 0, 0], [0, 0, 1, 0], [5, - 3, 0, 1]])"
proof -
  let ?w = "(ex_widget (Some PART_TRANSLATE) {XFORM_FLAG_TRANSLATE})
              \<lparr>interaction_data := Some (ex_session [0, 0])\<rparr>"
  have data: "interaction_data ?w = Some (ex_session [0, 0])"
    by simp
  have proj: "ex_project ex_context (?w\<lparr>matrix_offset := orig_matrix_offset (ex_session [0, 0])\<rparr>)
                (event_mval \<lparr>mval = [50, -30]\<rparr>) 2 False = Some [5, - 3]"
    by (simp add: ex_project_def event_mval_def)
  have part: "highlight_part ?w = Some PART_TRANSLATE"
    by (simp add: ex_widget_def)
  have shape: "is_m4 (orig_matrix_offset (ex_session [0, 0]))"
    by (simp add: ex_session_def unit_m4_def is_m4_def)
  from modal_translate_only_translation
         [where project = ex_project and C = ex_context and mpr = ?w
            and data = "ex_session [0, 0]" and event = "\<lparr>mval = [50, -30]\<rparr>"
            and point_local = "[5, - 3]", OF data proj part shape]
  obtain m where run: "manipulator_rect_transform_modal ex_project ex_context ?w
                         \<lparr>mval = [50, -30]\<rparr> = Inr (spec_update_result ex_context ?w m)"
    and shape_m: "is_m4 m"
    and x0: "m ! 3 ! 0 = orig_matrix_offset (ex_session [0, 0]) ! 3 ! 0
                           + ([5, - 3] ! 0 - orig_mouse (ex_session [0, 0]) ! 0)"
    and y0: "m ! 3 ! 1 = orig_matrix_offset (ex_session [0, 0]) ! 3 ! 1
                           + ([5, - 3] ! 1 - orig_mouse (ex_session [0, 0]) ! 1)"
    and others0: "\<forall>i<4. \<forall>j<4. (i, j) \<noteq> (3, 0) \<longrightarrow> (i, j) \<noteq> (3, 1) \<longrightarrow>
                     m ! i ! j = orig_matrix_offset (ex_session [0, 0]) ! i ! j"
    by blast
  from x0 have x: "m ! 3 ! 0 = 5"
    by (simp add: ex_session_def unit_m4_def)
  from y0 have y: "m ! 3 ! 1 = - 3"
    by (simp add: ex_session_def unit_m4_def)
  from others0 have others: "\<forall>i<4. \<forall>j<4. (i, j) \<noteq> (3, 0) \<longrightarrow> (i, j) \<noteq> (3, 1) \<longrightarrow>
                     m ! i ! j = unit_m4 ! i ! j"
    by (simp add: ex_session_def)
  from shape_m have len: "length m = 4" "length (m ! 0) = 4" "length (m ! 1) = 4"
      "length (m ! 2) = 4" "length (m ! 3) = 4"
    by (simp_all add: is_m4_def list_all_length)
  from others have entries:
    "m ! 0 ! 0 = 1" "m ! 0 ! 1 = 0" "m ! 0 ! 2 = 0" "m ! 0 ! 3 = 0"
    "m ! 1 ! 0 = 0" "m ! 1 ! 1 = 1" "m ! 1 ! 2 = 0" "m ! 1 ! 3 = 0"
    "m ! 2 ! 0 = 0" "m ! 2 ! 1 = 0" "m ! 2 ! 2 = 1" "m ! 2 ! 3 = 0"
    "m ! 3 ! 2 = 0" "m ! 3 ! 3 = 1"
    by (simp_all add: unit_m4_def)
  have "m = [m ! 0, m ! 1, m ! 2, m ! 3]"
    by (rule list4_nth [OF len(1)])
  also have "m ! 0 = [1, 0, 0, 0]"
    using list4_nth [OF len(2)] entries by simp
  also have "m ! 1 = [0, 1, 0, 0]"
    using list4_nth [OF len(3)] entries by simp
  also have "m ! 2 = [0, 0, 1, 0]"
    using list4_nth [OF len(4)] entries by simp
  also have "m ! 3 = [5, - 3, 0, 1]"
    using list4_nth [OF len(5)] entries x y by simp
  finally have "m = [[1, 0, 0, 0], [0, 1, 0, 0], [0, 0, 1, 0], [5, - 3, 0, 1]]" .
  with run show ?thesis by simp
qed

text \<open>
  C3. A drag session is a begin followed by any number of updates, for any active part;
  every such session runs through. Ending it with cancel puts the snapshot taken at the
  begin (the offset matrix the widget had then) back into the widget and writes it to the
  bound property; ending it with commit changes nothing, so the matrix is the one the
  last update computed.
\<close>

theorem exit_cancel_restores_commit_keeps:
  assumes "manipulator_rect_transform_invoke project C0 mpr0 event0 = (status, C1, mpr1)"
    and "highlight_part mpr0 = Some part"
  shows "\<exists>C2 mpr2.
           modal_updates project C1 mpr1 events = Inr (C2, mpr2) \<and>
           manipulator_rect_transform_exit C2 mpr2 True =
             Inr (C2\<lparr>target_data :=
                      (case target_matrix mpr0 of
                         None \<Rightarrow> target_data C2
                       | Some prop \<Rightarrow> value_set_array prop (matrix_offset mpr0) (target_data C2))\<rparr>,
                  mpr2\<lparr>matrix_offset := matrix_offset mpr0\<rparr>) \<and>
           manipulator_rect_transform_exit C2 mpr2 False = Inr (C2, mpr2)"
proof -
  from invoke_snapshot [OF assms(1)] assms(2) obtain data
    where begun: "interaction_data mpr1 = Some data" "orig_matrix_offset data = matrix_offset mpr0"
      "target_matrix mpr1 = target_matrix mpr0" "highlight_part mpr1 = Some part"
    by auto
  from modal_updates_on_part_return [OF begun(1,4)] obtain C2 mpr2
    where run: "modal_updates project C1 mpr1 events = Inr (C2, mpr2)"
    by blast
  from modal_updates_keep_session [OF run] begun
  have kept: "interaction_data mpr2 = Some data" "target_matrix mpr2 = target_matrix mpr0"
    by simp_all
  have cancel: "manipulator_rect_transform_exit C2 mpr2 True =
           Inr (C2\<lparr>target_data :=
                    (case target_matrix mpr0 of
                       None \<Rightarrow> target_data C2
                     | Some prop \<Rightarrow> value_set_array prop (matrix_offset mpr0) (target_data C2))\<rparr>,
                mpr2\<lparr>matrix_offset := matrix_offset mpr0\<rparr>)"
    using kept begun(2)
    by (simp add: manipulator_rect_transform_exit_def Let_def split: option.splits)
  have commit: "manipulator_rect_transform_exit C2 mpr2 False = Inr (C2, mpr2)"
    by (simp add: manipulator_rect_transform_exit_def)
  from run cancel commit show ?thesis by blast
qed

text \<open>
  A translate drag on the widget bound to the host's matrix: pressed at the local origin,
  moved to \<open>(5, -3)\<close> and then to \<open>(2, 1)\<close>. The session leaves the translation
  \<open>(2, 1)\<close> in the widget and in the host; cancel puts the identity back into both,
  commit keeps the translation.
\<close>

theorem exit_cancel_restores_commit_keeps_witness:
  "manipulator_rect_transform_invoke ex_project ex_context
      (ex_widget (Some PART_TRANSLATE) {XFORM_FLAG_TRANSLATE}) \<lparr>mval = [0, 0]\<rparr>
     = (OPERATOR_RUNNING_MODAL, ex_context,
        (ex_widget (Some PART_TRANSLATE) {XFORM_FLAG_TRANSLATE})
           \<lparr>interaction_data := Some (ex_session [0, 0])\<rparr>) \<and>
   modal_updates ex_project ex_context
      ((ex_widget (Some PART_TRANSLATE) {XFORM_FLAG_TRANSLATE})
           \<lparr>interaction_data := Some (ex_session [0, 0])\<rparr>)
      [\<lparr>mval = [50, -30]\<rparr>, \<lparr>mval = [20, 10]\<rparr>]
     = Inr (ex_context\<lparr>target_data := [[1, 0, 0, 0], [0, 1, 0, 0], [0, 0, 1, 0], [2, 1, 0, 1]],
                       region_redraw := True, mousemove_added := True\<rparr>,
            (ex_widget (Some PART_TRANSLATE) {XFORM_FLAG_TRANSLATE})
               \<lparr>interaction_data := Some (ex_session [0, 0]),
                matrix_offset := [[1, 0, 0, 0], [0, 1, 0, 0], [0, 0, 1, 0], [2, 1, 0, 1]]\<rparr>) \<and>
   manipulator_rect_transform_exit
      (ex_context\<lparr>target_data := [[1, 0, 0, 0], [0, 1, 0, 0], [0, 0, 1, 0], [2, 1, 0, 1]],
                  region_redraw := True, mousemove_added := True\<rparr>)
      ((ex_widget (Some PART_TRANSLATE) {XFORM_FLAG_TRANSLATE})
          \<lparr>interaction_data := Some (ex_session [0, 0]),
           matrix_offset := [[1, 0, 0, 0], [0, 1, 0, 0], [0, 0, 1, 0], [2, 1, 0, 1]]\<rparr>) True
     = Inr (ex_context\<lparr>target_data := unit_m4, region_redraw := True, mousemove_added := True\<rparr>,
            (ex_widget (Some PART_TRANSLATE) {XFORM_FLAG_TRANSLATE})
               \<lparr>interaction_data := Some (ex_session [0, 0]), matrix_offset := unit_m4\<rparr>) \<and>
   manipulator_rect_transform_exit
      (ex_context\<lparr>target_data := [[1, 0, 0, 0], [0, 1, 0, 0], [0, 0, 1, 0], [2, 1, 0, 1]],
                  region_redraw := True, mousemove_added := True\<rparr>)
      ((ex_widget (Some PART_TRANSLATE) {XFORM_FLAG_TRANSLATE})
          \<lparr>interaction_data := Some (ex_session [0, 0]),
           matrix_offset := [[1, 0, 0, 0], [0, 1, 0, 0], [0, 0, 1, 0], [2, 1, 0, 1]]\<rparr>) False
     = Inr (ex_context\<lparr>target_data := [[1, 0, 0, 0], [0, 1, 0, 0], [0, 0, 1, 0], [2, 1, 0, 1]],
                       region_redraw := True, mousemove_added := True\<rparr>,
            (ex_widget (Some PART_TRANSLATE) {XFORM_FLAG_TRANSLATE})
               \<lparr>interaction_data := Some (ex_session [0, 0]),
                matrix_offset := [[1, 0, 0, 0], [0, 1, 0, 0], [0, 0, 1, 0], [2, 1, 0, 1]]\<rparr>)"
proof -
  let ?w0 = "ex_widget (Some PART_TRANSLATE) {XFORM_FLAG_TRANSLATE}"
  let ?w1 = "?w0\<lparr>interaction_data := Some (ex_session [0, 0])\<rparr>"
  let ?m2 = "[[1, 0, 0, 0], [0, 1, 0, 0], [0, 0, 1, 0], [2, 1, 0, 1 :: real]]"
  let ?C2 = "ex_context\<lparr>target_data := ?m2, region_redraw := True, mousemove_added := True\<rparr>"
  let ?w2 = "?w0\<lparr>interaction_data := Some (ex_session [0, 0]), matrix_offset := ?m2\<rparr>"
  have press: "manipulator_rect_transform_invoke ex_project ex_context ?w0 \<lparr>mval = [0, 0]\<rparr>
                 = (OPERATOR_RUNNING_MODAL, ex_context, ?w1)"
    by (simp add: manipulator_rect_transform_invoke_def ex_project_def event_mval_def
        ex_session_def ex_widget_def Let_def)
  have moves: "modal_updates ex_project ex_context ?w1 [\<lparr>mval = [50, -30]\<rparr>, \<lparr>mval = [20, 10]\<rparr>]
                 = Inr (?C2, ?w2)"
    by (simp add: manipulator_rect_transform_modal_def ex_project_def event_mval_def
        ex_session_def ex_widget_def ex_context_def ex_property_def unit_m4_def Let_def)
  have part: "highlight_part ?w0 = Some PART_TRANSLATE"
    by (simp add: ex_widget_def)
  from exit_cancel_restores_commit_keeps
         [where project = ex_project and events = "[\<lparr>mval = [50, -30]\<rparr>, \<lparr>mval = [20, 10]\<rparr>]",
          OF press part]
  obtain C2 mpr2
    where session: "modal_updates ex_project ex_context ?w1
                      [\<lparr>mval = [50, -30]\<rparr>, \<lparr>mval = [20, 10]\<rparr>] = Inr (C2, mpr2)"
      and cancel: "manipulator_rect_transform_exit C2 mpr2 True =
             Inr (C2\<lparr>target_data :=
                      (case target_matrix ?w0 of
                         None \<Rightarrow> target_data C2
                       | Some prop \<Rightarrow> value_set_array prop (matrix_offset ?w0) (target_data C2))\<rparr>,
                  mpr2\<lparr>matrix_offset := matrix_offset ?w0\<rparr>)"
      and commit: "manipulator_rect_transform_exit C2 mpr2 False = Inr (C2, mpr2)"
    by blast
  from session moves have same: "C2 = ?C2" "mpr2 = ?w2"
    by simp_all
  from cancel commit
  have "manipulator_rect_transform_exit ?C2 ?w2 True
          = Inr (ex_context\<lparr>target_data := unit_m4, region_redraw := True,
                            mousemove_added := True\<rparr>,
                 ?w0\<lparr>interaction_data := Some (ex_session [0, 0]), matrix_offset := unit_m4\<rparr>)"
    and "manipulator_rect_transform_exit ?C2 ?w2 False = Inr (?C2, ?w2)"
    unfolding same
    by (simp_all add: ex_widget_def ex_property_def ex_context_def)
  with press moves show ?thesis by simp
qed

text \<open>
  C1, as amended. During a drag on a scale part, in a configuration where ScaleUniform is
  not enabled, an update whose projection succeeds computes the new offset matrix from
  the snapshot as the claim says: \<open>deltaOrig = orig_mouse - pivot\<close> and \<open>deltaCurr =
  point_local - pivot\<close>, divided by the dimensions; on each unconstrained axis both are
  negated when \<open>deltaOrig\<close> is negative and the factor is \<open>1 + (deltaCurr - deltaOrig) /
  length of the snapshot's basis vector\<close>; the pure scaling by these factors is recentred
  about the pivot and the result is the snapshot times that matrix. A constrained axis
  has the factor 1. (With ScaleUniform enabled the two factors are made equal first, so
  the matrix is not built from the per-axis factors; see C6 and the counterexample.)
\<close>

theorem scale_drag_matrix_without_uniform:
  assumes "interaction_data mpr = Some data"
    and "project C (mpr\<lparr>matrix_offset := orig_matrix_offset data\<rparr>) (event_mval event) 2 False
           = Some point_local"
    and "highlight_part mpr = Some part"
    and "part \<in> set scale_parts"
    and "XFORM_FLAG_SCALE_UNIFORM \<notin> transform mpr"
  shows "\<exists>pivot ca.
           spec_pivot (transform mpr) (Some part) = Inr (pivot, ca) \<and>
           manipulator_rect_transform_modal project C mpr event =
             Inr (spec_update_result C mpr
                    (spec_scaled_offset data pivot
                       (spec_scale_factors pivot ca (dimensions mpr) data point_local))) \<and>
           (\<forall>i<2. ca ! i \<longrightarrow>
                    spec_scale_factors pivot ca (dimensions mpr) data point_local ! i = 1)"
proof -
  from spec_pivot_scale_part [OF assms(4)] obtain pivot ca
    where pivot: "spec_pivot (transform mpr) (Some part) = Inr (pivot, ca)"
    by blast
  from scale_part_not_translate_rotate [OF assms(4)] assms(3)
  have other: "highlight_part mpr \<noteq> Some PART_TRANSLATE" "highlight_part mpr \<noteq> Some PART_ROTATE"
    by simp_all
  from pivot assms(3)
  have pivot': "spec_pivot (transform mpr) (highlight_part mpr) = Inr (pivot, ca)"
    by simp
  have "manipulator_rect_transform_modal project C mpr event =
          Inr (spec_update_result C mpr
                 (spec_scaled_offset data pivot
                    (spec_uniform (transform mpr)
                       (spec_scale_factors pivot ca (dimensions mpr) data point_local))))"
    using assms(1,2) other pivot' by (rule modal_scale_branch)
  with assms(5)
  have run: "manipulator_rect_transform_modal project C mpr event =
          Inr (spec_update_result C mpr
                 (spec_scaled_offset data pivot
                    (spec_scale_factors pivot ca (dimensions mpr) data point_local)))"
    by (simp add: spec_uniform_def)
  have one: "\<forall>i<2. ca ! i \<longrightarrow>
                    spec_scale_factors pivot ca (dimensions mpr) data point_local ! i = 1"
    by (simp add: constrained_factor_one)
  from pivot run one show ?thesis by blast
qed

text \<open>
  A drag on the Max X edge with Translate and Scale enabled: pressed at \<open>(1, 0)\<close>, moved
  to \<open>(2, 0)\<close>. The pivot is \<open>(-0.5, 0)\<close>, the factor of x is \<open>1.5\<close>, that of the
  constrained y is \<open>1\<close>.
\<close>

theorem scale_drag_matrix_without_uniform_witness:
  "manipulator_rect_transform_modal ex_project ex_context
      ((ex_widget (Some PART_SCALE_MAX_X) {XFORM_FLAG_TRANSLATE, XFORM_FLAG_SCALE})
          \<lparr>interaction_data := Some (ex_session [1, 0])\<rparr>) \<lparr>mval = [20, 0]\<rparr>
     = Inr (spec_update_result ex_context
              ((ex_widget (Some PART_SCALE_MAX_X) {XFORM_FLAG_TRANSLATE, XFORM_FLAG_SCALE})
                  \<lparr>interaction_data := Some (ex_session [1, 0])\<rparr>)
              [[1.5, 0, 0, 0], [0, 1, 0, 0], [0, 0, 1, 0], [0.25, 0, 0, 1]])"
proof -
  let ?w = "(ex_widget (Some PART_SCALE_MAX_X) {XFORM_FLAG_TRANSLATE, XFORM_FLAG_SCALE})
              \<lparr>interaction_data := Some (ex_session [1, 0])\<rparr>"
  have data: "interaction_data ?w = Some (ex_session [1, 0])"
    by simp
  have proj: "ex_project ex_context (?w\<lparr>matrix_offset := orig_matrix_offset (ex_session [1, 0])\<rparr>)
                (event_mval \<lparr>mval = [20, 0]\<rparr>) 2 False = Some [2, 0]"
    by (simp add: ex_project_def event_mval_def)
  have part: "highlight_part ?w = Some PART_SCALE_MAX_X" "PART_SCALE_MAX_X \<in> set scale_parts"
    by (simp_all add: ex_widget_def scale_parts_def scale_edge_parts_def)
  have flags: "XFORM_FLAG_SCALE_UNIFORM \<notin> transform ?w"
    by (simp add: ex_widget_def)
  have pivot: "spec_pivot (transform ?w) (Some PART_SCALE_MAX_X) = Inr ([- 0.5, 0], [False, True])"
    by (simp add: spec_pivot_def ex_widget_def)
  have factors: "spec_scale_factors [- 0.5, 0] [False, True] (dimensions ?w) (ex_session [1, 0]) [2, 0]
                   = [1.5, 1]"
    by (simp add: spec_scale_factors_def spec_axis_scale_def ex_widget_def ex_session_def
        unit_m4_def len_v3_def)
  have matrix: "spec_scaled_offset (ex_session [1, 0]) [- 0.5, 0] [1.5, 1]
                  = [[1.5, 0, 0, 0], [0, 1, 0, 0], [0, 0, 1, 0], [0.25, 0, 0, 1]]"
    by (simp add: spec_scaled_offset_def recentred_closed_form ex_session_def unit_m4_def
        mul_m4_m4m4_def)
  from scale_drag_matrix_without_uniform
         [where project = ex_project and C = ex_context and mpr = ?w
            and data = "ex_session [1, 0]" and event = "\<lparr>mval = [20, 0]\<rparr>"
            and point_local = "[2, 0]" and part = PART_SCALE_MAX_X,
          OF data proj part flags]
  obtain pv ca where "spec_pivot (transform ?w) (Some PART_SCALE_MAX_X) = Inr (pv, ca)"
    and "manipulator_rect_transform_modal ex_project ex_context ?w \<lparr>mval = [20, 0]\<rparr> =
             Inr (spec_update_result ex_context ?w
                    (spec_scaled_offset (ex_session [1, 0]) pv
                       (spec_scale_factors pv ca (dimensions ?w) (ex_session [1, 0]) [2, 0])))"
    by blast
  with pivot factors matrix show ?thesis by simp
qed

text \<open>
  C1 as stated fails where ScaleUniform is enabled. On the Max X edge with Translate,
  Scale and ScaleUniform, pressed at \<open>(1, 0)\<close> and moved to \<open>(2, 0)\<close>, the per-axis
  factors are \<open>1.5\<close> for x and \<open>1\<close> for the constrained y, and the matrix the claim
  describes has \<open>1\<close> at \<open>[1][1]\<close>; the update stores \<open>1.5\<close> there.
\<close>

theorem scale_drag_uniform_counterexample:
  "spec_pivot {XFORM_FLAG_TRANSLATE, XFORM_FLAG_SCALE, XFORM_FLAG_SCALE_UNIFORM}
      (Some PART_SCALE_MAX_X) = Inr ([- 0.5, 0], [False, True]) \<and>
   ex_project ex_context
      ((ex_widget (Some PART_SCALE_MAX_X)
          {XFORM_FLAG_TRANSLATE, XFORM_FLAG_SCALE, XFORM_FLAG_SCALE_UNIFORM})
          \<lparr>interaction_data := Some (ex_session [1, 0]),
           matrix_offset := orig_matrix_offset (ex_session [1, 0])\<rparr>)
      (event_mval \<lparr>mval = [20, 0]\<rparr>) 2 False = Some [2, 0] \<and>
   spec_scale_factors [- 0.5, 0] [False, True] [2, 2] (ex_session [1, 0]) [2, 0] = [1.5, 1] \<and>
   spec_scaled_offset (ex_session [1, 0]) [- 0.5, 0] [1.5, 1]
     = [[1.5, 0, 0, 0], [0, 1, 0, 0], [0, 0, 1, 0], [0.25, 0, 0, 1]] \<and>
   manipulator_rect_transform_modal ex_project ex_context
      ((ex_widget (Some PART_SCALE_MAX_X)
          {XFORM_FLAG_TRANSLATE, XFORM_FLAG_SCALE, XFORM_FLAG_SCALE_UNIFORM})
          \<lparr>interaction_data := Some (ex_session [1, 0])\<rparr>) \<lparr>mval = [20, 0]\<rparr>
     = Inr (spec_update_result ex_context
              ((ex_widget (Some PART_SCALE_MAX_X)
                  {XFORM_FLAG_TRANSLATE, XFORM_FLAG_SCALE, XFORM_FLAG_SCALE_UNIFORM})
                  \<lparr>interaction_data := Some (ex_session [1, 0])\<rparr>)
              [[1.5, 0, 0, 0], [0, 1.5, 0, 0], [0, 0, 1, 0], [0.25, 0, 0, 1]]) \<and>
   manipulator_rect_transform_modal ex_project ex_context
      ((ex_widget (Some PART_SCALE_MAX_X)
          {XFORM_FLAG_TRANSLATE, XFORM_FLAG_SCALE, XFORM_FLAG_SCALE_UNIFORM})
          \<lparr>interaction_data := Some (ex_session [1, 0])\<rparr>) \<lparr>mval = [20, 0]\<rparr>
     \<noteq> Inr (spec_update_result ex_context
              ((ex_widget (Some PART_SCALE_MAX_X)
                  {XFORM_FLAG_TRANSLATE, XFORM_FLAG_SCALE, XFORM_FLAG_SCALE_UNIFORM})
                  \<lparr>interaction_data := Some (ex_session [1, 0])\<rparr>)
              (spec_scaled_offset (ex_session [1, 0]) [- 0.5, 0]
                 (spec_scale_factors [- 0.5, 0] [False, True] [2, 2] (ex_session [1, 0]) [2, 0])))"
proof -
  let ?flags = "{XFORM_FLAG_TRANSLATE, XFORM_FLAG_SCALE, XFORM_FLAG_SCALE_UNIFORM}"
  let ?w = "(ex_widget (Some PART_SCALE_MAX_X) ?flags)
              \<lparr>interaction_data := Some (ex_session [1, 0])\<rparr>"
  have pivot: "spec_pivot ?flags (Some PART_SCALE_MAX_X) = Inr ([- 0.5, 0], [False, True])"
    by (simp add: spec_pivot_def)
  have proj: "ex_project ex_context (?w\<lparr>matrix_offset := orig_matrix_offset (ex_session [1, 0])\<rparr>)
                (event_mval \<lparr>mval = [20, 0]\<rparr>) 2 False = Some [2, 0]"
    by (simp add: ex_project_def event_mval_def)
  have factors: "spec_scale_factors [- 0.5, 0] [False, True] [2, 2] (ex_session [1, 0]) [2, 0]
                   = [1.5, 1]"
    by (simp add: spec_scale_factors_def spec_axis_scale_def ex_session_def
        unit_m4_def len_v3_def)
  have claimed: "spec_scaled_offset (ex_session [1, 0]) [- 0.5, 0] [1.5, 1]
                  = [[1.5, 0, 0, 0], [0, 1, 0, 0], [0, 0, 1, 0], [0.25, 0, 0, 1]]"
    by (simp add: spec_scaled_offset_def recentred_closed_form ex_session_def unit_m4_def
        mul_m4_m4m4_def)
  have computed: "spec_scaled_offset (ex_session [1, 0]) [- 0.5, 0] [1.5, 1.5]
                  = [[1.5, 0, 0, 0], [0, 1.5, 0, 0], [0, 0, 1, 0], [0.25, 0, 0, 1]]"
    by (simp add: spec_scaled_offset_def recentred_closed_form ex_session_def unit_m4_def
        mul_m4_m4m4_def)
  have fields: "transform ?w = ?flags" "dimensions ?w = [2, 2]"
      "interaction_data ?w = Some (ex_session [1, 0])"
      "highlight_part ?w = Some PART_SCALE_MAX_X"
    by (simp_all add: ex_widget_def)
  have "manipulator_rect_transform_modal ex_project ex_context ?w \<lparr>mval = [20, 0]\<rparr>
          = Inr (spec_update_result ex_context ?w
                   (spec_scaled_offset (ex_session [1, 0]) [- 0.5, 0]
                      (spec_uniform (transform ?w)
                         (spec_scale_factors [- 0.5, 0] [False, True] (dimensions ?w)
                            (ex_session [1, 0]) [2, 0]))))"
    using fields(3) proj
  proof (rule modal_scale_branch)
    show "highlight_part ?w \<noteq> Some PART_TRANSLATE" "highlight_part ?w \<noteq> Some PART_ROTATE"
      by (simp_all add: fields)
    show "spec_pivot (transform ?w) (highlight_part ?w) = Inr ([- 0.5, 0], [False, True])"
      by (simp only: fields pivot)
  qed
  moreover have "spec_uniform ?flags [1.5, 1] = [1.5, 1.5]"
    by (simp add: spec_uniform_def)
  ultimately
  have run: "manipulator_rect_transform_modal ex_project ex_context ?w \<lparr>mval = [20, 0]\<rparr>
          = Inr (spec_update_result ex_context ?w
                   [[1.5, 0, 0, 0], [0, 1.5, 0, 0], [0, 0, 1, 0], [0.25, 0, 0, 1]])"
    by (simp only: fields factors computed)
  have differ: "manipulator_rect_transform_modal ex_project ex_context ?w \<lparr>mval = [20, 0]\<rparr>
     \<noteq> Inr (spec_update_result ex_context ?w
              (spec_scaled_offset (ex_session [1, 0]) [- 0.5, 0]
                 (spec_scale_factors [- 0.5, 0] [False, True] [2, 2] (ex_session [1, 0]) [2, 0])))"
  proof
    assume "manipulator_rect_transform_modal ex_project ex_context ?w \<lparr>mval = [20, 0]\<rparr>
     = Inr (spec_update_result ex_context ?w
              (spec_scaled_offset (ex_session [1, 0]) [- 0.5, 0]
                 (spec_scale_factors [- 0.5, 0] [False, True] [2, 2] (ex_session [1, 0]) [2, 0])))"
    then have "spec_update_result ex_context ?w
                 [[1.5, 0, 0, 0], [0, 1.5, 0, 0], [0, 0, 1, 0], [0.25, 0, 0, 1]]
               = spec_update_result ex_context ?w
                 [[1.5, 0, 0, 0], [0, 1, 0, 0], [0, 0, 1, 0], [0.25, 0, 0, 1]]"
      by (simp only: run factors claimed sum.inject)
    then have "[[1.5, 0, 0, 0], [0, 1.5, 0, 0], [0, 0, 1, 0], [0.25, 0, 0, 1 :: real]]
               = [[1.5, 0, 0, 0], [0, 1, 0, 0], [0, 0, 1, 0], [0.25, 0, 0, 1]]"
      by (rule spec_update_result_inject)
    then show False by simp
  qed
  from pivot proj factors claimed run differ show ?thesis by simp
qed

text \<open>
  C5. In an update of a scale drag the pivot and the constraint flags come from the pivot
  table exactly when the Translate flag is enabled. With Translate disabled the pivot is
  the local origin \<open>(0, 0)\<close> and both axes are unconstrained, whichever scale part is
  active: the matrix stored does not depend on the part.
\<close>

theorem scale_pivot_by_translate_flag:
  assumes "interaction_data mpr = Some data"
    and "project C (mpr\<lparr>matrix_offset := orig_matrix_offset data\<rparr>) (event_mval event) 2 False
           = Some point_local"
    and "highlight_part mpr = Some part"
    and "part \<in> set scale_parts"
  shows "(XFORM_FLAG_TRANSLATE \<in> transform mpr \<longrightarrow>
            (\<exists>pivot ca.
               manipulator_rect_pivot_from_scale_part (Some part) = Inr (pivot, ca) \<and>
               manipulator_rect_transform_modal project C mpr event =
                 Inr (spec_update_result C mpr
                        (spec_scaled_offset data pivot
                           (spec_uniform (transform mpr)
                              (spec_scale_factors pivot ca (dimensions mpr) data point_local)))))) \<and>
         (XFORM_FLAG_TRANSLATE \<notin> transform mpr \<longrightarrow>
            manipulator_rect_transform_modal project C mpr event =
              Inr (spec_update_result C mpr
                     (spec_scaled_offset data [0, 0]
                        (spec_uniform (transform mpr)
                           (spec_scale_factors [0, 0] [False, False] (dimensions mpr) data
                              point_local)))))"
proof -
  from scale_part_not_translate_rotate [OF assms(4)] assms(3)
  have other: "highlight_part mpr \<noteq> Some PART_TRANSLATE" "highlight_part mpr \<noteq> Some PART_ROTATE"
    by simp_all
  show ?thesis
  proof (intro conjI impI)
    assume enabled: "XFORM_FLAG_TRANSLATE \<in> transform mpr"
    from spec_pivot_scale_part [OF assms(4)] obtain pivot ca
      where pivot: "spec_pivot (transform mpr) (Some part) = Inr (pivot, ca)"
      by blast
    with enabled have table: "manipulator_rect_pivot_from_scale_part (Some part) = Inr (pivot, ca)"
      by (simp add: spec_pivot_def)
    from pivot assms(3)
    have "spec_pivot (transform mpr) (highlight_part mpr) = Inr (pivot, ca)"
      by simp
    with assms(1,2) other
    have "manipulator_rect_transform_modal project C mpr event =
            Inr (spec_update_result C mpr
                   (spec_scaled_offset data pivot
                      (spec_uniform (transform mpr)
                         (spec_scale_factors pivot ca (dimensions mpr) data point_local))))"
      by (rule modal_scale_branch)
    with table
    show "\<exists>pivot ca.
               manipulator_rect_pivot_from_scale_part (Some part) = Inr (pivot, ca) \<and>
               manipulator_rect_transform_modal project C mpr event =
                 Inr (spec_update_result C mpr
                        (spec_scaled_offset data pivot
                           (spec_uniform (transform mpr)
                              (spec_scale_factors pivot ca (dimensions mpr) data point_local))))"
      by blast
  next
    assume disabled: "XFORM_FLAG_TRANSLATE \<notin> transform mpr"
    then have "spec_pivot (transform mpr) (highlight_part mpr) = Inr ([0, 0], [False, False])"
      by (simp add: spec_pivot_def)
    with assms(1,2) other
    show "manipulator_rect_transform_modal project C mpr event =
              Inr (spec_update_result C mpr
                     (spec_scaled_offset data [0, 0]
                        (spec_uniform (transform mpr)
                           (spec_scale_factors [0, 0] [False, False] (dimensions mpr) data
                              point_local))))"
      by (rule modal_scale_branch)
  qed
qed

text \<open>
  The Max X edge, pressed at \<open>(1, 0)\<close> and moved to \<open>(2, 0.5)\<close>. With Scale alone the
  pivot is the origin and y scales too (factors \<open>1.5\<close> and \<open>1.25\<close>, no translation);
  with Translate beside it the pivot is \<open>(-0.5, 0)\<close> and y is constrained.
\<close>

theorem scale_pivot_by_translate_flag_witness:
  "manipulator_rect_transform_modal ex_project ex_context
      ((ex_widget (Some PART_SCALE_MAX_X) {XFORM_FLAG_SCALE})
          \<lparr>interaction_data := Some (ex_session [1, 0])\<rparr>) \<lparr>mval = [20, 5]\<rparr>
     = Inr (spec_update_result ex_context
              ((ex_widget (Some PART_SCALE_MAX_X) {XFORM_FLAG_SCALE})
                  \<lparr>interaction_data := Some (ex_session [1, 0])\<rparr>)
              [[1.5, 0, 0, 0], [0, 1.25, 0, 0], [0, 0, 1, 0], [0, 0, 0, 1]]) \<and>
   manipulator_rect_transform_modal ex_project ex_context
      ((ex_widget (Some PART_SCALE_MAX_X) {XFORM_FLAG_TRANSLATE, XFORM_FLAG_SCALE})
          \<lparr>interaction_data := Some (ex_session [1, 0])\<rparr>) \<lparr>mval = [20, 5]\<rparr>
     = Inr (spec_update_result ex_context
              ((ex_widget (Some PART_SCALE_MAX_X) {XFORM_FLAG_TRANSLATE, XFORM_FLAG_SCALE})
                  \<lparr>interaction_data := Some (ex_session [1, 0])\<rparr>)
              [[1.5, 0, 0, 0], [0, 1, 0, 0], [0, 0, 1, 0], [0.25, 0, 0, 1]])"
proof -
  let ?s = "(ex_widget (Some PART_SCALE_MAX_X) {XFORM_FLAG_SCALE})
              \<lparr>interaction_data := Some (ex_session [1, 0])\<rparr>"
  let ?t = "(ex_widget (Some PART_SCALE_MAX_X) {XFORM_FLAG_TRANSLATE, XFORM_FLAG_SCALE})
              \<lparr>interaction_data := Some (ex_session [1, 0])\<rparr>"
  have part: "PART_SCALE_MAX_X \<in> set scale_parts"
    by (simp add: scale_parts_def scale_edge_parts_def)
  have fields_s: "interaction_data ?s = Some (ex_session [1, 0])"
      "highlight_part ?s = Some PART_SCALE_MAX_X"
      "XFORM_FLAG_TRANSLATE \<notin> transform ?s"
    by (simp_all add: ex_widget_def)
  have fields_t: "interaction_data ?t = Some (ex_session [1, 0])"
      "highlight_part ?t = Some PART_SCALE_MAX_X"
      "XFORM_FLAG_TRANSLATE \<in> transform ?t"
    by (simp_all add: ex_widget_def)
  have proj_s: "ex_project ex_context (?s\<lparr>matrix_offset := orig_matrix_offset (ex_session [1, 0])\<rparr>)
                (event_mval \<lparr>mval = [20, 5]\<rparr>) 2 False = Some [2, 0.5]"
    by (simp add: ex_project_def event_mval_def)
  have proj_t: "ex_project ex_context (?t\<lparr>matrix_offset := orig_matrix_offset (ex_session [1, 0])\<rparr>)
                (event_mval \<lparr>mval = [20, 5]\<rparr>) 2 False = Some [2, 0.5]"
    by (simp add: ex_project_def event_mval_def)
  have origin: "spec_scaled_offset (ex_session [1, 0]) [0, 0]
                  (spec_uniform (transform ?s)
                     (spec_scale_factors [0, 0] [False, False] (dimensions ?s)
                        (ex_session [1, 0]) [2, 0.5]))
                = [[1.5, 0, 0, 0], [0, 1.25, 0, 0], [0, 0, 1, 0], [0, 0, 0, 1]]"
    by (simp add: spec_scaled_offset_def recentred_closed_form spec_uniform_def
        spec_scale_factors_def spec_axis_scale_def ex_widget_def ex_session_def unit_m4_def
        len_v3_def mul_m4_m4m4_def)
  have opposite: "spec_scaled_offset (ex_session [1, 0]) [- 0.5, 0]
                  (spec_uniform (transform ?t)
                     (spec_scale_factors [- 0.5, 0] [False, True] (dimensions ?t)
                        (ex_session [1, 0]) [2, 0.5]))
                = [[1.5, 0, 0, 0], [0, 1, 0, 0], [0, 0, 1, 0], [0.25, 0, 0, 1]]"
    by (simp add: spec_scaled_offset_def recentred_closed_form spec_uniform_def
        spec_scale_factors_def spec_axis_scale_def ex_widget_def ex_session_def unit_m4_def
        len_v3_def mul_m4_m4m4_def)
  from scale_pivot_by_translate_flag
         [where project = ex_project and C = ex_context and mpr = ?s
            and data = "ex_session [1, 0]" and event = "\<lparr>mval = [20, 5]\<rparr>"
            and point_local = "[2, 0.5]" and part = PART_SCALE_MAX_X,
          OF fields_s(1) proj_s fields_s(2) part]
    fields_s(3) origin
  have disabled: "manipulator_rect_transform_modal ex_project ex_context ?s \<lparr>mval = [20, 5]\<rparr>
     = Inr (spec_update_result ex_context ?s
              [[1.5, 0, 0, 0], [0, 1.25, 0, 0], [0, 0, 1, 0], [0, 0, 0, 1]])"
    by simp
  from scale_pivot_by_translate_flag
         [where project = ex_project and C = ex_context and mpr = ?t
            and data = "ex_session [1, 0]" and event = "\<lparr>mval = [20, 5]\<rparr>"
            and point_local = "[2, 0.5]" and part = PART_SCALE_MAX_X,
          OF fields_t(1) proj_t fields_t(2) part]
    fields_t(3) opposite
  have enabled: "manipulator_rect_transform_modal ex_project ex_context ?t \<lparr>mval = [20, 5]\<rparr>
     = Inr (spec_update_result ex_context ?t
              [[1.5, 0, 0, 0], [0, 1, 0, 0], [0, 0, 1, 0], [0.25, 0, 0, 1]])"
    by auto
  from disabled enabled show ?thesis by simp
qed

text \<open>
  C6. With ScaleUniform enabled, an update of a scale drag makes the two factors equal
  after computing them per axis: both become the one of the two whose distance from 1 is
  the larger, so the scaling that is recentred and multiplied onto the snapshot has the
  same factor \<open>u\<close> at \<open>[0][0]\<close> and \<open>[1][1]\<close>.
\<close>

theorem scale_uniform_forces_equal:
  assumes "interaction_data mpr = Some data"
    and "project C (mpr\<lparr>matrix_offset := orig_matrix_offset data\<rparr>) (event_mval event) 2 False
           = Some point_local"
    and "highlight_part mpr = Some part"
    and "part \<in> set scale_parts"
    and "XFORM_FLAG_SCALE_UNIFORM \<in> transform mpr"
  shows "\<exists>pivot ca s u.
           spec_pivot (transform mpr) (Some part) = Inr (pivot, ca) \<and>
           s = spec_scale_factors pivot ca (dimensions mpr) data point_local \<and>
           (u = s ! 0 \<or> u = s ! 1) \<and>
           \<bar>u - 1\<bar> = max \<bar>s ! 0 - 1\<bar> \<bar>s ! 1 - 1\<bar> \<and>
           manipulator_rect_transform_modal project C mpr event =
             Inr (spec_update_result C mpr (spec_scaled_offset data pivot [u, u])) \<and>
           spec_recentered_scale pivot [u, u] ! 0 ! 0 = u \<and>
           spec_recentered_scale pivot [u, u] ! 1 ! 1 = u"
proof -
  from spec_pivot_scale_part [OF assms(4)] obtain pivot ca
    where pivot: "spec_pivot (transform mpr) (Some part) = Inr (pivot, ca)"
    by blast
  from spec_pivot_shape [OF pivot] obtain px py where shape: "pivot = [px, py]"
    by blast
  define s where "s = spec_scale_factors pivot ca (dimensions mpr) data point_local"
  define u where "u = (if \<bar>s ! 0 - 1\<bar> > \<bar>s ! 1 - 1\<bar> then s ! 0 else s ! 1)"
  from scale_part_not_translate_rotate [OF assms(4)] assms(3)
  have other: "highlight_part mpr \<noteq> Some PART_TRANSLATE" "highlight_part mpr \<noteq> Some PART_ROTATE"
    by simp_all
  from pivot assms(3)
  have pivot': "spec_pivot (transform mpr) (highlight_part mpr) = Inr (pivot, ca)"
    by simp
  have uniform: "spec_uniform (transform mpr) s = [u, u]"
    using assms(5) by (simp add: spec_uniform_def u_def)
  have "manipulator_rect_transform_modal project C mpr event =
          Inr (spec_update_result C mpr
                 (spec_scaled_offset data pivot
                    (spec_uniform (transform mpr)
                       (spec_scale_factors pivot ca (dimensions mpr) data point_local))))"
    using assms(1,2) other pivot' by (rule modal_scale_branch)
  then have run: "manipulator_rect_transform_modal project C mpr event =
          Inr (spec_update_result C mpr (spec_scaled_offset data pivot [u, u]))"
    by (simp only: s_def [symmetric] uniform)
  have one_of: "u = s ! 0 \<or> u = s ! 1"
    by (simp add: u_def)
  have larger: "\<bar>u - 1\<bar> = max \<bar>s ! 0 - 1\<bar> \<bar>s ! 1 - 1\<bar>"
    by (simp add: u_def max_def)
  have diag: "spec_recentered_scale pivot [u, u] ! 0 ! 0 = u"
      "spec_recentered_scale pivot [u, u] ! 1 ! 1 = u"
    by (simp_all add: shape recentred_closed_form)
  from pivot s_def one_of larger run diag show ?thesis by blast
qed

text \<open>
  The spec's scenario: the Max X Max Y corner with ScaleUniform, pressed at \<open>(1, 1)\<close> and
  moved to \<open>(2, 1.5)\<close>. The per-axis factors \<open>1.5\<close> and \<open>1.25\<close> differ; the matrix stored
  scales both axes by \<open>1.5\<close>.
\<close>

theorem scale_uniform_forces_equal_witness:
  "spec_scale_factors [- 0.5, - 0.5] [False, False] [2, 2] (ex_session [1, 1]) [2, 1.5]
     = [1.5, 1.25] \<and>
   manipulator_rect_transform_modal ex_project ex_context
      ((ex_widget (Some PART_SCALE_MAX_X_MAX_Y)
          {XFORM_FLAG_TRANSLATE, XFORM_FLAG_SCALE, XFORM_FLAG_SCALE_UNIFORM})
          \<lparr>interaction_data := Some (ex_session [1, 1])\<rparr>) \<lparr>mval = [20, 15]\<rparr>
     = Inr (spec_update_result ex_context
              ((ex_widget (Some PART_SCALE_MAX_X_MAX_Y)
                  {XFORM_FLAG_TRANSLATE, XFORM_FLAG_SCALE, XFORM_FLAG_SCALE_UNIFORM})
                  \<lparr>interaction_data := Some (ex_session [1, 1])\<rparr>)
              [[1.5, 0, 0, 0], [0, 1.5, 0, 0], [0, 0, 1, 0], [0.25, 0.25, 0, 1]])"
proof -
  let ?flags = "{XFORM_FLAG_TRANSLATE, XFORM_FLAG_SCALE, XFORM_FLAG_SCALE_UNIFORM}"
  let ?w = "(ex_widget (Some PART_SCALE_MAX_X_MAX_Y) ?flags)
              \<lparr>interaction_data := Some (ex_session [1, 1])\<rparr>"
  have part: "PART_SCALE_MAX_X_MAX_Y \<in> set scale_parts"
    by (simp add: scale_parts_def scale_corner_parts_def)
  have fields: "interaction_data ?w = Some (ex_session [1, 1])"
      "highlight_part ?w = Some PART_SCALE_MAX_X_MAX_Y"
      "XFORM_FLAG_SCALE_UNIFORM \<in> transform ?w"
    by (simp_all add: ex_widget_def)
  have proj: "ex_project ex_context (?w\<lparr>matrix_offset := orig_matrix_offset (ex_session [1, 1])\<rparr>)
                (event_mval \<lparr>mval = [20, 15]\<rparr>) 2 False = Some [2, 1.5]"
    by (simp add: ex_project_def event_mval_def)
  have pivot: "spec_pivot (transform ?w) (Some PART_SCALE_MAX_X_MAX_Y)
                 = Inr ([- 0.5, - 0.5], [False, False])"
    by (simp add: spec_pivot_def ex_widget_def)
  have factors: "spec_scale_factors [- 0.5, - 0.5] [False, False] [2, 2] (ex_session [1, 1])
                   [2, 1.5] = [1.5, 1.25]"
    by (simp add: spec_scale_factors_def spec_axis_scale_def ex_session_def unit_m4_def
        len_v3_def)
  have matrix: "spec_scaled_offset (ex_session [1, 1]) [- 0.5, - 0.5] [1.5, 1.5]
                  = [[1.5, 0, 0, 0], [0, 1.5, 0, 0], [0, 0, 1, 0], [0.25, 0.25, 0, 1]]"
    by (simp add: spec_scaled_offset_def recentred_closed_form ex_session_def unit_m4_def
        mul_m4_m4m4_def)
  from scale_uniform_forces_equal
         [where project = ex_project and C = ex_context and mpr = ?w
            and data = "ex_session [1, 1]" and event = "\<lparr>mval = [20, 15]\<rparr>"
            and point_local = "[2, 1.5]" and part = PART_SCALE_MAX_X_MAX_Y,
          OF fields(1) proj fields(2) part fields(3)]
  obtain pv ca s u
    where got: "spec_pivot (transform ?w) (Some PART_SCALE_MAX_X_MAX_Y) = Inr (pv, ca)"
      "s = spec_scale_factors pv ca (dimensions ?w) (ex_session [1, 1]) [2, 1.5]"
      "u = s ! 0 \<or> u = s ! 1"
      "\<bar>u - 1\<bar> = max \<bar>s ! 0 - 1\<bar> \<bar>s ! 1 - 1\<bar>"
      "manipulator_rect_transform_modal ex_project ex_context ?w \<lparr>mval = [20, 15]\<rparr> =
         Inr (spec_update_result ex_context ?w (spec_scaled_offset (ex_session [1, 1]) pv [u, u]))"
    by blast
  from got(1) pivot have pv: "pv = [- 0.5, - 0.5]" "ca = [False, False]"
    by simp_all
  have dims: "dimensions ?w = [2, 2]"
    by (simp add: ex_widget_def)
  from got(2) have s: "s = [1.5, 1.25]"
    by (simp only: pv dims factors)
  from got(3,4) have u: "u = 1.5"
    by (auto simp: s)
  from got(5) have "manipulator_rect_transform_modal ex_project ex_context ?w \<lparr>mval = [20, 15]\<rparr> =
         Inr (spec_update_result ex_context ?w
                [[1.5, 0, 0, 0], [0, 1.5, 0, 0], [0, 0, 1, 0], [0.25, 0.25, 0, 1]])"
    by (simp only: pv u matrix)
  with factors show ?thesis by simp
qed

end
